theory Spec2Isabelle
  imports Complex_Main "HOL-Library.Word"
begin

section \<open>The WESTPA HDF5 writer of westpa\_colmena (io.py)\<close>

text \<open>
  The development embeds \<^verbatim>\<open>src/westpa_colmena/io.py\<close>: the class
  \<^verbatim>\<open>WestpaH5File\<close> with its constructor, its four table writers and
  \<^verbatim>\<open>append\<close>. An HDF5 file is a record of the groups and datasets the
  writer touches, a file system is a map from paths to such files, and every writer
  takes the open file and returns it updated. A Python exception is a value: a call
  that raises returns \<open>Inl (e, f)\<close>, where \<open>f\<close> is the file as the
  exception leaves it (HDF5 has no transactions, so what was written before the raise
  stays written).

  Conventions of the embedding:
  \<^item> \<^verbatim>\<open>float64\<close> weights and progress coordinates are idealised as
    \<open>real\<close>;
  \<^item> iteration numbers and the padding width are natural numbers (the file stores
    them in unsigned fields), and the widths of the numpy integer fields are not modelled;
  \<^item> an HDF5 object reference is the name of the referenced subgroup inside its
    parent group, \<open>None\<close> being the null reference.
\<close>

subsection \<open>Exceptions\<close>

text \<open>
  \<open>EmptyIteration\<close> is the \<^verbatim>\<open>ValueError\<close> that Python raises for an
  empty sequence: the explicit \<^verbatim>\<open>raise ValueError('next_iteration must not be empty')\<close>
  of \<^verbatim>\<open>append\<close> and the one of \<^verbatim>\<open>min()\<close>/\<^verbatim>\<open>max()\<close> on an
  empty generator. \<open>NameExists\<close> is the \<^verbatim>\<open>ValueError\<close> of h5py when
  \<^verbatim>\<open>create_group\<close> or \<^verbatim>\<open>create_dataset\<close> meets a name in use,
  \<open>KeyError\<close> the lookup of a missing member, \<open>IndexError\<close> an index outside
  a dataset.
\<close>

datatype error = EmptyIteration | NameExists | KeyError | IndexError

subsection \<open>Records read by the writer\<close>

type_synonym byte = "8 word"

text \<open>
  Modelled from the spec: \<^verbatim>\<open>SimMetadata\<close>, \<^verbatim>\<open>BasisStates\<close> and
  \<^verbatim>\<open>TargetState\<close> are declared in \<^verbatim>\<open>westpa_colmena.ensemble\<close>, which
  is not among the sources. The records below carry the fields that io.py reads; a
  replica record has a weight, an iteration number, the hash of its binning scheme (a
  64-byte digest, which fills the \<^verbatim>\<open>|S64\<close> field exactly) and the
  serialized scheme; \<^verbatim>\<open>BasisStates\<close> is the list of its states.
\<close>

record SimMetadata =
  weight :: real
  simulation_id :: int
  iteration_id :: nat
  auxref :: string
  parent_pcoord :: "real list"
  binner_pickle :: "byte list"
  binner_hash :: string

type_synonym BasisStates = "SimMetadata list"

record TargetState =
  label :: string
  pcoord :: "real list"

record DDWEMetadata =
  west_current_iteration :: int
  west_file_format_version :: int
  west_iter_prec :: nat
  west_version :: string

subsection \<open>The file\<close>

record summary_row =
  n_particles :: nat
  norm :: real
  min_bin_prob :: real
  max_bin_prob :: real
  min_seg_prob :: real
  max_seg_prob :: real
  cputime :: real
  walltime :: real
  binhash :: string

record ibstate_index_row =
  ib_iter_valid :: nat
  n_bstates :: nat
  ib_group_ref :: "string option"

record bstate_row =
  bs_label :: string
  probability :: real
  bs_auxref :: string

record tstate_index_row =
  ts_iter_valid :: nat
  n_states :: nat
  ts_group_ref :: "string option"

record binning_index_row =
  hash :: string
  pickle_len :: nat

text \<open>A subgroup of \<^verbatim>\<open>/ibstates\<close>: its two datasets exist once they are assigned.\<close>

record bstate_group =
  bstate_index :: "bstate_row list option"
  bstate_pcoord :: "real list list option"

record ibstates_group =
  ib_index :: "ibstate_index_row list option"
  ib_groups :: "string \<rightharpoonup> bstate_group"

text \<open>A subgroup of \<^verbatim>\<open>/tstates\<close>: the label table and the coordinate matrix.\<close>

record tstate_group =
  tstate_index :: "string list"
  tstate_pcoord :: "real list list"

record tstates_group =
  ts_index :: "tstate_index_row list option"
  ts_groups :: "string \<rightharpoonup> tstate_group"

text \<open>
  The two-dimensional \<^verbatim>\<open>uint8\<close> dataset \<^verbatim>\<open>pickles\<close>: its shape is
  \<open>(length (pk_rows d), pk_width d)\<close>.
\<close>

record pickle_ds =
  pk_width :: nat
  pk_rows :: "byte list list"

record bin_group =
  bin_index :: "binning_index_row list option"
  pickles :: "pickle_ds option"

record iter_group =
  n_iter_attr :: "nat option"

datatype attr = AInt int | AStr string

text \<open>
  The journal is a history variable: every mutating h5py call appends one entry at the
  moment it is made, naming the object it mutates by its path from the root.
\<close>

type_synonym h5path = "string list"

datatype h5write =
    SetAttr h5path string
  | CreateDataset h5path
  | CreateGroup h5path
  | Resize h5path
  | SetItem h5path

fun target :: "h5write \<Rightarrow> h5path" where
  "target (SetAttr p a) = p"
| "target (CreateDataset p) = p"
| "target (CreateGroup p) = p"
| "target (Resize p) = p"
| "target (SetItem p) = p"

record h5py_File =
  file_attrs :: "string \<rightharpoonup> attr"
  summary :: "summary_row list option"
  iterations :: "(string \<rightharpoonup> iter_group) option"
  ibstates :: "ibstates_group option"
  tstates :: "tstates_group option"
  bin_topologies :: "bin_group option"
  journal :: "h5write list"

type_synonym filesystem = "string \<rightharpoonup> h5py_File"

record WestpaH5File =
  config :: DDWEMetadata
  h5file :: string

type_synonym 'a raises = "(error \<times> 'a) + 'a"

definition outcome :: "'a raises \<Rightarrow> 'a" where
  "outcome r = (case r of Inl (e, f) \<Rightarrow> f | Inr f \<Rightarrow> f)"

definition raised :: "'a raises \<Rightarrow> error option" where
  "raised r = (case r of Inl (e, f) \<Rightarrow> Some e | Inr f \<Rightarrow> None)"

definition and_then :: "'a raises \<Rightarrow> ('a \<Rightarrow> 'a raises) \<Rightarrow> 'a raises" where
  "and_then r k = (case r of Inl x \<Rightarrow> Inl x | Inr f \<Rightarrow> k f)"

definition wr :: "h5write list \<Rightarrow> h5py_File \<Rightarrow> h5py_File" where
  "wr ws f = f\<lparr>journal := journal f @ ws\<rparr>"

subsection \<open>Python and h5py primitives\<close>

text \<open>\<^verbatim>\<open>sum\<close> adds from the left, starting at 0.\<close>

definition py_sum :: "real list \<Rightarrow> real" where
  "py_sum xs = foldl (+) 0 xs"

text \<open>
  \<^verbatim>\<open>min\<close> and \<^verbatim>\<open>max\<close> raise on an empty sequence; otherwise they keep
  the first item and replace it by a later one that is strictly smaller (larger).
\<close>

fun py_min :: "real list \<Rightarrow> error + real" where
  "py_min [] = Inl EmptyIteration"
| "py_min (x # xs) = Inr (foldl (\<lambda>m y. if y < m then y else m) x xs)"

fun py_max :: "real list \<Rightarrow> error + real" where
  "py_max [] = Inl EmptyIteration"
| "py_max (x # xs) = Inr (foldl (\<lambda>m y. if y > m then y else m) x xs)"

text \<open>\<^verbatim>\<open>str\<close> of a non-negative integer, and of an integer.\<close>

fun str_nat :: "nat \<Rightarrow> string" where
  "str_nat n =
     (if n < 10 then [''0123456789'' ! n]
      else str_nat (n div 10) @ [''0123456789'' ! (n mod 10)])"

declare str_nat.simps [simp del]

definition str_int :: "int \<Rightarrow> string" where
  "str_int i = (if i < 0 then CHR ''-'' # str_nat (nat (- i)) else str_nat (nat i))"

text \<open>
  \<^verbatim>\<open>'{:0{prec}d}'.format(n, prec=p)\<close> for \<open>n \<ge> 0\<close>: the decimal digits,
  padded with zeros on the left up to width \<open>p\<close>.
\<close>

definition format_0d :: "nat \<Rightarrow> nat \<Rightarrow> string" where
  "format_0d p n = replicate (p - length (str_nat n)) CHR ''0'' @ str_nat n"

text \<open>
  \<^verbatim>\<open>Dataset.resize((n,))\<close> keeps the rows below \<open>n\<close> and fills new rows
  with the fill value.
\<close>

definition resize :: "nat \<Rightarrow> 'a \<Rightarrow> 'a list \<Rightarrow> 'a list" where
  "resize n fill xs = take n xs @ replicate (n - length xs) fill"

definition zero_summary_row :: summary_row where
  "zero_summary_row =
     \<lparr>n_particles = 0, norm = 0, min_bin_prob = 0, max_bin_prob = 0, min_seg_prob = 0,
      max_seg_prob = 0, cputime = 0, walltime = 0, binhash = []\<rparr>"

definition zero_ibstate_row :: ibstate_index_row where
  "zero_ibstate_row = \<lparr>ib_iter_valid = 0, n_bstates = 0, ib_group_ref = None\<rparr>"

definition zero_tstate_row :: tstate_index_row where
  "zero_tstate_row = \<lparr>ts_iter_valid = 0, n_states = 0, ts_group_ref = None\<rparr>"

definition zero_binning_row :: binning_index_row where
  "zero_binning_row = \<lparr>hash = [], pickle_len = 0\<rparr>"

subsection \<open>The constructor\<close>

text \<open>\<^verbatim>\<open>h5py.File(h5file, mode='w')\<close>: a new, empty file, whatever the path held.\<close>

definition empty_file :: h5py_File where
  "empty_file =
     \<lparr>file_attrs = Map.empty, summary = None, iterations = None, ibstates = None,
      tstates = None, bin_topologies = None, journal = []\<rparr>"

definition set_attr :: "string \<Rightarrow> attr \<Rightarrow> h5py_File \<Rightarrow> h5py_File" where
  "set_attr a v f = wr [SetAttr [] a] (f\<lparr>file_attrs := (file_attrs f)(a \<mapsto> v)\<rparr>)"

definition init_file :: "DDWEMetadata \<Rightarrow> h5py_File" where
  "init_file cfg =
     (let f = empty_file;
          f = set_attr ''west_file_format_version'' (AInt (west_file_format_version cfg)) f;
          f = set_attr ''west_iter_prec'' (AInt (int (west_iter_prec cfg))) f;
          f = set_attr ''west_version'' (AStr (west_version cfg)) f;
          f = set_attr ''westpa_iter_prec'' (AInt (int (west_iter_prec cfg))) f;
          f = set_attr ''westpa_fileformat_version'' (AInt (west_file_format_version cfg)) f;
          f = wr [CreateDataset [''summary'']] (f\<lparr>summary := Some [zero_summary_row]\<rparr>);
          f = wr [CreateGroup [''iterations'']] (f\<lparr>iterations := Some Map.empty\<rparr>)
      in f)"

definition WestpaH5File_init ::
  "string \<Rightarrow> DDWEMetadata \<Rightarrow> filesystem \<Rightarrow> WestpaH5File \<times> filesystem" where
  "WestpaH5File_init path cfg fs =
     (\<lparr>config = cfg, h5file = path\<rparr>, fs(path \<mapsto> init_file cfg))"

subsection \<open>The summary table\<close>

text \<open>
  The row is computed first (an empty list or an empty partition raises there, before
  the file is touched), then the table is looked up, grown to \<open>n_iter + 1\<close> rows
  when it has fewer than \<open>n_iter\<close>, and the row is stored at index
  \<open>n_iter - 1\<close>; h5py counts a negative index from the end.
\<close>

definition append_summary ::
  "nat \<Rightarrow> SimMetadata list \<Rightarrow> SimMetadata list list \<Rightarrow> h5py_File \<Rightarrow> h5py_File raises" where
  "append_summary n_iter next_iteration binned_sims f =
     (case py_min (map weight next_iteration) of Inl e \<Rightarrow> Inl (e, f) | Inr min_seg \<Rightarrow>
      case py_max (map weight next_iteration) of Inl e \<Rightarrow> Inl (e, f) | Inr max_seg \<Rightarrow>
      case py_min (map (\<lambda>sims. py_sum (map weight sims)) binned_sims) of
        Inl e \<Rightarrow> Inl (e, f) | Inr min_bin \<Rightarrow>
      case py_max (map (\<lambda>sims. py_sum (map weight sims)) binned_sims) of
        Inl e \<Rightarrow> Inl (e, f) | Inr max_bin \<Rightarrow>
      case next_iteration of [] \<Rightarrow> Inl (IndexError, f) | sim # _ \<Rightarrow>
      let summary_row =
            \<lparr>n_particles = length next_iteration,
             norm = py_sum (map weight next_iteration),
             min_bin_prob = min_bin, max_bin_prob = max_bin,
             min_seg_prob = min_seg, max_seg_prob = max_seg,
             cputime = 0, walltime = 0,
             binhash = binner_hash sim\<rparr>
      in case summary f of None \<Rightarrow> Inl (KeyError, f) | Some old_table \<Rightarrow>
         let grow = (length old_table < n_iter);
             summary_table =
               (if grow then resize (n_iter + 1) zero_summary_row old_table else old_table);
             ws = (if grow then [Resize [''summary'']] else []);
             i = int n_iter - 1;
             j = (if i < 0 then i + int (length summary_table) else i)
         in if 0 \<le> j \<and> j < int (length summary_table)
            then Inr (wr (ws @ [SetItem [''summary'']])
                   (f\<lparr>summary := Some (summary_table[nat j := summary_row])\<rparr>))
            else Inl (IndexError, wr ws (f\<lparr>summary := Some summary_table\<rparr>)))"

subsection \<open>Basis states and target states\<close>

definition empty_ibstates_group :: ibstates_group where
  "empty_ibstates_group = \<lparr>ib_index = None, ib_groups = Map.empty\<rparr>"

definition empty_tstates_group :: tstates_group where
  "empty_tstates_group = \<lparr>ts_index = None, ts_groups = Map.empty\<rparr>"

definition bstate_of :: "SimMetadata \<Rightarrow> bstate_row" where
  "bstate_of state =
     \<lparr>bs_label = str_int (simulation_id state), probability = weight state,
      bs_auxref = auxref state\<rparr>"

text \<open>
  The subgroup named \<open>str(set_id)\<close> is created for every call, also for an empty
  state list; \<^verbatim>\<open>create_group\<close> raises when the name is taken, and by then the
  index has its new row.
\<close>

definition append_ibstates :: "nat \<Rightarrow> BasisStates \<Rightarrow> h5py_File \<Rightarrow> h5py_File raises" where
  "append_ibstates n_iter basis_states f =
     (let old_group = (case ibstates f of None \<Rightarrow> empty_ibstates_group | Some g \<Rightarrow> g);
          ws1 = (case ibstates f of None \<Rightarrow> [CreateGroup [''ibstates'']] | Some g \<Rightarrow> []);
          index = (case ib_index old_group of
                     Some index \<Rightarrow> resize (length index + 1) zero_ibstate_row index
                   | None \<Rightarrow> [zero_ibstate_row]);
          ws2 = (case ib_index old_group of
                   Some index \<Rightarrow> [Resize [''ibstates'', ''index'']]
                 | None \<Rightarrow> [CreateDataset [''ibstates'', ''index'']]);
          group = old_group\<lparr>ib_index := Some index\<rparr>;
          set_id = length index - 1;
          index_row = (index ! set_id)
            \<lparr>ib_iter_valid := n_iter, n_bstates := length basis_states\<rparr>;
          name = str_nat set_id
      in if name \<in> dom (ib_groups group)
         then Inl (NameExists, wr (ws1 @ ws2) (f\<lparr>ibstates := Some group\<rparr>))
         else
           let index_row = index_row\<lparr>ib_group_ref := Some name\<rparr>;
               state_group =
                 (if basis_states \<noteq> []
                  then \<lparr>bstate_index = Some (map bstate_of basis_states),
                        bstate_pcoord = Some (map parent_pcoord basis_states)\<rparr>
                  else \<lparr>bstate_index = None, bstate_pcoord = None\<rparr>);
               ws3 = [CreateGroup [''ibstates'', name]] @
                 (if basis_states \<noteq> []
                  then [CreateDataset [''ibstates'', name, ''bstate_index''],
                        CreateDataset [''ibstates'', name, ''bstate_pcoord'']]
                  else []) @
                 [SetItem [''ibstates'', ''index'']]
           in Inr (wr (ws1 @ ws2 @ ws3)
                (f\<lparr>ibstates := Some (group
                     \<lparr>ib_index := Some (index[set_id := index_row]),
                      ib_groups := (ib_groups group)(name \<mapsto> state_group)\<rparr>)\<rparr>)))"

text \<open>
  Here the subgroup is created only for a non-empty list; for an empty one the
  reference of the row is set to \<^verbatim>\<open>None\<close>.
\<close>

definition append_tstates :: "nat \<Rightarrow> TargetState list \<Rightarrow> h5py_File \<Rightarrow> h5py_File raises" where
  "append_tstates n_iter target_states f =
     (let old_group = (case tstates f of None \<Rightarrow> empty_tstates_group | Some g \<Rightarrow> g);
          ws1 = (case tstates f of None \<Rightarrow> [CreateGroup [''tstates'']] | Some g \<Rightarrow> []);
          index = (case ts_index old_group of
                     Some index \<Rightarrow> resize (length index + 1) zero_tstate_row index
                   | None \<Rightarrow> [zero_tstate_row]);
          ws2 = (case ts_index old_group of
                   Some index \<Rightarrow> [Resize [''tstates'', ''index'']]
                 | None \<Rightarrow> [CreateDataset [''tstates'', ''index'']]);
          group = old_group\<lparr>ts_index := Some index\<rparr>;
          set_id = length index - 1;
          index_row = (index ! set_id)
            \<lparr>ts_iter_valid := n_iter, n_states := length target_states\<rparr>;
          name = str_nat set_id
      in if target_states \<noteq> []
         then
           if name \<in> dom (ts_groups group)
           then Inl (NameExists, wr (ws1 @ ws2) (f\<lparr>tstates := Some group\<rparr>))
           else
             let state_group =
                   \<lparr>tstate_index = map label target_states,
                    tstate_pcoord = map pcoord target_states\<rparr>;
                 index_row = index_row\<lparr>ts_group_ref := Some name\<rparr>;
                 ws3 = [CreateGroup [''tstates'', name],
                        CreateDataset [''tstates'', name, ''index''],
                        CreateDataset [''tstates'', name, ''pcoord''],
                        SetItem [''tstates'', ''index'']]
             in Inr (wr (ws1 @ ws2 @ ws3)
                  (f\<lparr>tstates := Some (group
                       \<lparr>ts_index := Some (index[set_id := index_row]),
                        ts_groups := (ts_groups group)(name \<mapsto> state_group)\<rparr>)\<rparr>))
         else
           let index_row = index_row\<lparr>ts_group_ref := None\<rparr>
           in Inr (wr (ws1 @ ws2 @ [SetItem [''tstates'', ''index'']])
                (f\<lparr>tstates := Some (group
                     \<lparr>ts_index := Some (index[set_id := index_row])\<rparr>)\<rparr>)))"

subsection \<open>Bin topologies\<close>

definition empty_bin_group :: bin_group where
  "empty_bin_group = \<lparr>bin_index = None, pickles = None\<rparr>"

text \<open>
  \<^verbatim>\<open>pickle_ds.resize((n, w))\<close>: \<open>n\<close> rows of width \<open>w\<close>, the old
  content kept where it fits and zeros elsewhere.
\<close>

definition resize2 :: "nat \<Rightarrow> nat \<Rightarrow> pickle_ds \<Rightarrow> pickle_ds" where
  "resize2 n w d =
     \<lparr>pk_width = w, pk_rows = map (resize w 0) (resize n [] (pk_rows d))\<rparr>"

text \<open>
  When both datasets exist they get one more row each, the payload as wide as the
  widest blob so far; otherwise both are created, \<^verbatim>\<open>index\<close> first, and a
  dataset that is already there makes \<^verbatim>\<open>create_dataset\<close> raise. The blob is
  stored left-justified in row \<open>len(index) - 1\<close> of the payload.
\<close>

definition append_bin_mapper :: "SimMetadata \<Rightarrow> h5py_File \<Rightarrow> h5py_File raises" where
  "append_bin_mapper sim f =
     (let old_group = (case bin_topologies f of None \<Rightarrow> empty_bin_group | Some g \<Rightarrow> g);
          ws1 = (case bin_topologies f of
                   None \<Rightarrow> [CreateGroup [''bin_topologies'']] | Some g \<Rightarrow> []);
          pickle_data = binner_pickle sim;
          hashval = binner_hash sim
      in case (bin_index old_group, pickles old_group) of
           (Some old_index, Some old_pickles) \<Rightarrow>
             let index = resize (length old_index + 1) zero_binning_row old_index;
                 new_hsize = max (pk_width old_pickles) (length pickle_data);
                 pickle_ds = resize2 (length (pk_rows old_pickles) + 1) new_hsize old_pickles;
                 ws2 = [Resize [''bin_topologies'', ''index''],
                        Resize [''bin_topologies'', ''pickles'']];
                 ind = length index - 1;
                 index_row = (index ! ind)
                   \<lparr>hash := hashval, pickle_len := length pickle_data\<rparr>;
                 index = index[ind := index_row];
                 ws3 = [SetItem [''bin_topologies'', ''index'']]
             in if ind < length (pk_rows pickle_ds)
                then Inr (wr (ws1 @ ws2 @ ws3 @ [SetItem [''bin_topologies'', ''pickles'']])
                  (f\<lparr>bin_topologies := Some
                       \<lparr>bin_index = Some index,
                        pickles = Some (pickle_ds
                          \<lparr>pk_rows := (pk_rows pickle_ds)
                             [ind := pickle_data @
                                drop (length pickle_data) (pk_rows pickle_ds ! ind)]\<rparr>)\<rparr>\<rparr>))
                else Inl (IndexError, wr (ws1 @ ws2 @ ws3)
                  (f\<lparr>bin_topologies := Some
                       \<lparr>bin_index = Some index, pickles = Some pickle_ds\<rparr>\<rparr>))
         | (Some old_index, None) \<Rightarrow>
             Inl (NameExists, wr ws1 (f\<lparr>bin_topologies := Some old_group\<rparr>))
         | (None, Some old_pickles) \<Rightarrow>
             Inl (NameExists, wr (ws1 @ [CreateDataset [''bin_topologies'', ''index'']])
               (f\<lparr>bin_topologies := Some (old_group\<lparr>bin_index := Some [zero_binning_row]\<rparr>)\<rparr>))
         | (None, None) \<Rightarrow>
             let index_row = zero_binning_row
                   \<lparr>hash := hashval, pickle_len := length pickle_data\<rparr>
             in Inr (wr (ws1 @
                  [CreateDataset [''bin_topologies'', ''index''],
                   CreateDataset [''bin_topologies'', ''pickles''],
                   SetItem [''bin_topologies'', ''index''],
                   SetItem [''bin_topologies'', ''pickles'']])
                  (f\<lparr>bin_topologies := Some
                       \<lparr>bin_index = Some [index_row],
                        pickles = Some
                          \<lparr>pk_width = length pickle_data, pk_rows = [pickle_data]\<rparr>\<rparr>\<rparr>)))"

subsection \<open>Appending an iteration\<close>

text \<open>
  \<^verbatim>\<open>with h5py.File(path, mode='a') as f\<close>: the file at the path, or a new empty
  one; what the body did to it is on disk when the block is left, normally or by an
  exception.
\<close>

definition h5_open_a :: "filesystem \<Rightarrow> string \<Rightarrow> h5py_File" where
  "h5_open_a fs path = (case fs path of None \<Rightarrow> empty_file | Some f \<Rightarrow> f)"

definition with_file_a ::
  "string \<Rightarrow> (h5py_File \<Rightarrow> h5py_File raises) \<Rightarrow> filesystem \<Rightarrow> filesystem raises" where
  "with_file_a path body fs =
     (case body (h5_open_a fs path) of
        Inl (e, f') \<Rightarrow> Inl (e, fs(path \<mapsto> f'))
      | Inr f' \<Rightarrow> Inr (fs(path \<mapsto> f')))"

definition iter_name :: "DDWEMetadata \<Rightarrow> nat \<Rightarrow> string" where
  "iter_name cfg n_iter = ''iter_'' @ format_0d (west_iter_prec cfg) n_iter"

text \<open>
  \<^verbatim>\<open>f.require_group('/iterations/iter_...')\<close> creates the group (and
  \<^verbatim>\<open>/iterations\<close> on the way) only when it is missing; then the attribute is set.
\<close>

definition require_iter_group :: "DDWEMetadata \<Rightarrow> nat \<Rightarrow> h5py_File \<Rightarrow> h5py_File raises" where
  "require_iter_group cfg n_iter f =
     (let name = iter_name cfg n_iter;
          its = (case iterations f of None \<Rightarrow> Map.empty | Some its \<Rightarrow> its);
          iter_group = (case its name of None \<Rightarrow> \<lparr>n_iter_attr = None\<rparr> | Some g \<Rightarrow> g);
          ws = (case its name of
                  None \<Rightarrow> [CreateGroup [''iterations'', name]] | Some g \<Rightarrow> [])
      in Inr (wr (ws @ [SetAttr [''iterations'', name] ''n_iter''])
           (f\<lparr>iterations := Some (its(name \<mapsto> iter_group\<lparr>n_iter_attr := Some n_iter\<rparr>))\<rparr>)))"

definition append_iter ::
  "WestpaH5File \<Rightarrow> SimMetadata list \<Rightarrow> SimMetadata list list \<Rightarrow> BasisStates \<Rightarrow>
   TargetState list \<Rightarrow> filesystem \<Rightarrow> filesystem raises" where
  "append_iter self next_iteration binned_sims basis_states target_states fs =
     (case next_iteration of
        [] \<Rightarrow> Inl (EmptyIteration, fs)
      | sim # _ \<Rightarrow>
          let n_iter = iteration_id sim
          in with_file_a (h5file self)
               (\<lambda>f.
                  and_then (append_summary n_iter next_iteration binned_sims f) (\<lambda>f.
                  and_then (if n_iter \<noteq> 0 then append_ibstates n_iter basis_states f
                            else Inr f) (\<lambda>f.
                  and_then (if n_iter \<noteq> 0 then append_tstates n_iter target_states f
                            else Inr f) (\<lambda>f.
                  and_then (if n_iter \<noteq> 0 then append_bin_mapper sim f else Inr f) (\<lambda>f.
                  require_iter_group (config self) n_iter f)))))
               fs)"


subsection \<open>Views of a file used in the statements\<close>

text \<open>The top-level member of the file that a journal entry writes to or below.\<close>

definition section_of :: "h5write \<Rightarrow> string" where
  "section_of w = (case target w of [] \<Rightarrow> [] | x # p \<Rightarrow> x)"

text \<open>The entries that a call added to the journal of the file it was given.\<close>

definition new_writes :: "h5py_File \<Rightarrow> h5py_File \<Rightarrow> h5write list" where
  "new_writes f g = drop (length (journal f)) (journal g)"

text \<open>Lengths of the growable tables; a table that does not exist yet has no rows.\<close>

definition summary_len :: "h5py_File \<Rightarrow> nat" where
  "summary_len f = (case summary f of None \<Rightarrow> 0 | Some t \<Rightarrow> length t)"

definition ib_index_of :: "h5py_File \<Rightarrow> ibstate_index_row list" where
  "ib_index_of f =
     (case ibstates f of None \<Rightarrow> [] | Some g \<Rightarrow>
        (case ib_index g of None \<Rightarrow> [] | Some t \<Rightarrow> t))"

definition ts_index_of :: "h5py_File \<Rightarrow> tstate_index_row list" where
  "ts_index_of f =
     (case tstates f of None \<Rightarrow> [] | Some g \<Rightarrow>
        (case ts_index g of None \<Rightarrow> [] | Some t \<Rightarrow> t))"

definition bin_index_of :: "h5py_File \<Rightarrow> binning_index_row list" where
  "bin_index_of f =
     (case bin_topologies f of None \<Rightarrow> [] | Some g \<Rightarrow>
        (case bin_index g of None \<Rightarrow> [] | Some t \<Rightarrow> t))"

definition pickle_rows_of :: "h5py_File \<Rightarrow> byte list list" where
  "pickle_rows_of f =
     (case bin_topologies f of None \<Rightarrow> [] | Some g \<Rightarrow>
        (case pickles g of None \<Rightarrow> [] | Some d \<Rightarrow> pk_rows d))"

definition pickle_width_of :: "h5py_File \<Rightarrow> nat" where
  "pickle_width_of f =
     (case bin_topologies f of None \<Rightarrow> 0 | Some g \<Rightarrow>
        (case pickles g of None \<Rightarrow> 0 | Some d \<Rightarrow> pk_width d))"

definition ib_groups_of :: "h5py_File \<Rightarrow> (string \<rightharpoonup> bstate_group)" where
  "ib_groups_of f = (case ibstates f of None \<Rightarrow> Map.empty | Some g \<Rightarrow> ib_groups g)"

definition ts_groups_of :: "h5py_File \<Rightarrow> (string \<rightharpoonup> tstate_group)" where
  "ts_groups_of f = (case tstates f of None \<Rightarrow> Map.empty | Some g \<Rightarrow> ts_groups g)"

definition iterations_of :: "h5py_File \<Rightarrow> (string \<rightharpoonup> iter_group)" where
  "iterations_of f = (case iterations f of None \<Rightarrow> Map.empty | Some its \<Rightarrow> its)"

subsection \<open>A small store used to instantiate the theorems\<close>

definition cfg0 :: DDWEMetadata where
  "cfg0 = \<lparr>west_current_iteration = 1, west_file_format_version = 9, west_iter_prec = 8,
            west_version = ''0.1.0''\<rparr>"

definition store0 :: WestpaH5File where
  "store0 = \<lparr>config = cfg0, h5file = ''west.h5''\<rparr>"

definition fs0 :: filesystem where
  "fs0 = snd (WestpaH5File_init ''west.h5'' cfg0 Map.empty)"

definition sim_a :: SimMetadata where
  "sim_a = \<lparr>weight = 3 / 5, simulation_id = 0, iteration_id = 1, auxref = [],
             parent_pcoord = [1], binner_pickle = [1, 2, 3], binner_hash = ''abc''\<rparr>"

definition sim_b :: SimMetadata where
  "sim_b = \<lparr>weight = 2 / 5, simulation_id = 1, iteration_id = 1, auxref = [],
             parent_pcoord = [2], binner_pickle = [1, 2, 3], binner_hash = ''abc''\<rparr>"

text \<open>The store after iteration 1 has been appended to it.\<close>

definition fs1 :: filesystem where
  "fs1 = outcome (append_iter store0 [sim_a, sim_b] [[sim_a, sim_b]] [] [] fs0)"

text \<open>
  The bin-topology group as the writer leaves it: the index and the payload are both
  missing or both there, with as many rows in one as in the other.
\<close>

definition bin_wf :: "h5py_File \<Rightarrow> bool" where
  "bin_wf f =
     (case bin_topologies f of None \<Rightarrow> True
      | Some g \<Rightarrow>
         (case (bin_index g, pickles g) of
            (None, None) \<Rightarrow> True
          | (Some i, Some d) \<Rightarrow> length i = length (pk_rows d)
          | (None, Some d) \<Rightarrow> False
          | (Some i, None) \<Rightarrow> False))"

subsection \<open>Sequences of table writes\<close>

text \<open>
  A call of one of the four table writers, and a run of such calls on a file: each call
  starts from the file as the call before left it, whether that call returned or raised.
\<close>

datatype write_op =
    Op_summary nat "SimMetadata list" "SimMetadata list list"
  | Op_ibstates nat BasisStates
  | Op_tstates nat "TargetState list"
  | Op_bin_mapper SimMetadata

fun run_op :: "write_op \<Rightarrow> h5py_File \<Rightarrow> h5py_File raises" where
  "run_op (Op_summary n next_iteration binned_sims) f =
     append_summary n next_iteration binned_sims f"
| "run_op (Op_ibstates n basis_states) f = append_ibstates n basis_states f"
| "run_op (Op_tstates n target_states) f = append_tstates n target_states f"
| "run_op (Op_bin_mapper sim) f = append_bin_mapper sim f"

fun run_ops :: "write_op list \<Rightarrow> h5py_File \<Rightarrow> h5py_File" where
  "run_ops [] f = f"
| "run_ops (op # ops) f = run_ops ops (outcome (run_op op f))"

text \<open>The table writes that \<^verbatim>\<open>append\<close> makes for iteration \<open>n\<close>, in order.\<close>

definition append_ops ::
  "nat \<Rightarrow> SimMetadata \<Rightarrow> SimMetadata list \<Rightarrow> SimMetadata list list \<Rightarrow> BasisStates \<Rightarrow>
   TargetState list \<Rightarrow> write_op list" where
  "append_ops n sim next_iteration binned_sims basis_states target_states =
     Op_summary n next_iteration binned_sims #
     (if n \<noteq> 0
      then [Op_ibstates n basis_states, Op_tstates n target_states, Op_bin_mapper sim]
      else [])"

text \<open>No growable table of \<open>g\<close> is shorter than it is in \<open>f\<close>.\<close>

definition tables_le :: "h5py_File \<Rightarrow> h5py_File \<Rightarrow> bool" where
  "tables_le f g =
     (summary_len f \<le> summary_len g \<and>
      length (ib_index_of f) \<le> length (ib_index_of g) \<and>
      length (ts_index_of f) \<le> length (ts_index_of g) \<and>
      length (bin_index_of f) \<le> length (bin_index_of g) \<and>
      length (pickle_rows_of f) \<le> length (pickle_rows_of g))"

text \<open>
  Every index that refers to a row of a table is inside the table: a subgroup of
  \<^verbatim>\<open>/ibstates\<close> or \<^verbatim>\<open>/tstates\<close> is named after a row of the index
  beside it, every row of the bin index has its payload row, and an iteration group
  stamped \<open>n\<close> finds the summary table at least \<open>n\<close> rows long.
\<close>

definition refs_in_range :: "h5py_File \<Rightarrow> bool" where
  "refs_in_range f =
     ((\<forall>name\<in>dom (ib_groups_of f). \<exists>k<length (ib_index_of f). name = str_nat k) \<and>
      (\<forall>name\<in>dom (ts_groups_of f). \<exists>k<length (ts_index_of f). name = str_nat k) \<and>
      bin_wf f \<and> length (bin_index_of f) \<le> length (pickle_rows_of f) \<and>
      (\<forall>g\<in>ran (iterations_of f). \<forall>n. n_iter_attr g = Some n \<longrightarrow> n \<le> summary_len f))"

section \<open>Properties\<close>

subsection \<open>Results of calls\<close>

lemma foldl_plus_sum_list: "foldl (+) a xs = a + sum_list xs" for a :: real
  by (induction xs arbitrary: a) (simp_all add: add.assoc)

lemma py_sum_sum_list: "py_sum xs = sum_list xs"
  by (simp add: py_sum_def foldl_plus_sum_list)

lemma foldl_lt_Min: "foldl (\<lambda>m y. if y < m then y else m) a xs = Min (set (a # xs))" for a :: real
proof -
  have "(\<lambda>y m. if y < m then y else m) = (min :: real \<Rightarrow> real \<Rightarrow> real)"
    by (intro ext) (simp add: min_def)
  then show ?thesis
    by (simp add: foldl_conv_fold Min.set_eq_fold del: set_simps)
qed

lemma foldl_gt_Max: "foldl (\<lambda>m y. if y > m then y else m) a xs = Max (set (a # xs))" for a :: real
proof -
  have "(\<lambda>y m. if y > m then y else m) = (max :: real \<Rightarrow> real \<Rightarrow> real)"
    by (intro ext) (simp add: max_def)
  then show ?thesis
    by (simp add: foldl_conv_fold Max.set_eq_fold del: set_simps)
qed

lemma py_min_Min: "xs \<noteq> [] \<Longrightarrow> py_min xs = Inr (Min (set xs))"
  by (cases xs) (simp_all add: foldl_lt_Min del: set_simps)

lemma py_max_Max: "xs \<noteq> [] \<Longrightarrow> py_max xs = Inr (Max (set xs))"
  by (cases xs) (simp_all add: foldl_gt_Max del: set_simps)


lemma outcome_simps [simp]: "outcome (Inl (e, f)) = f" "outcome (Inr f) = f"
  by (simp_all add: outcome_def)

lemma raised_simps [simp]: "raised (Inl (e, f)) = Some e" "raised (Inr f) = None"
  by (simp_all add: raised_def)

lemma and_then_simps [simp]: "and_then (Inl x) k = Inl x" "and_then (Inr f) k = k f"
  by (simp_all add: and_then_def)

lemma outcome_and_then_frame:
  assumes "\<And>g. P (outcome (k g)) = P g"
  shows "P (outcome (and_then r k)) = P (outcome r)"
  using assms by (cases r) (auto simp: and_then_def)

lemma wr_simps [simp]:
  "summary (wr ws f) = summary f" "iterations (wr ws f) = iterations f"
  "ibstates (wr ws f) = ibstates f" "tstates (wr ws f) = tstates f"
  "bin_topologies (wr ws f) = bin_topologies f" "file_attrs (wr ws f) = file_attrs f"
  "journal (wr ws f) = journal f @ ws"
  by (simp_all add: wr_def)

lemma append_summary_pos:
  assumes "0 < n" and "binned_sims \<noteq> []" and "summary f = Some tbl"
  shows "append_summary n (sim # sims) binned_sims f =
     Inr (wr ((if length tbl < n then [Resize [''summary'']] else []) @ [SetItem [''summary'']])
        (f\<lparr>summary := Some
          ((if length tbl < n then resize (n + 1) zero_summary_row tbl else tbl)
            [n - 1 :=
              \<lparr>n_particles = length (sim # sims),
               norm = sum_list (map weight (sim # sims)),
               min_bin_prob = Min (set (map (\<lambda>b. sum_list (map weight b)) binned_sims)),
               max_bin_prob = Max (set (map (\<lambda>b. sum_list (map weight b)) binned_sims)),
               min_seg_prob = Min (set (map weight (sim # sims))),
               max_seg_prob = Max (set (map weight (sim # sims))),
               cputime = 0, walltime = 0, binhash = binner_hash sim\<rparr>])\<rparr>))"
proof -
  have seg: "py_min (map weight (sim # sims)) = Inr (Min (set (map weight (sim # sims))))"
    "py_max (map weight (sim # sims)) = Inr (Max (set (map weight (sim # sims))))"
    by (rule py_min_Min, simp) (rule py_max_Max, simp)
  have bins: "map (\<lambda>sims. py_sum (map weight sims)) binned_sims \<noteq> []"
    using assms(2) by simp
  have idx: "nat (int n - 1) = n - 1" by simp
  show ?thesis
    unfolding append_summary_def seg py_min_Min [OF bins] py_max_Max [OF bins]
    using assms(1,3)
    by (simp add: Let_def py_sum_sum_list resize_def idx del: set_simps list.map)
qed

lemma length_resize [simp]: "length (resize n x xs) = n"
  by (simp add: resize_def)


lemma outcome_with_file_a:
  "outcome (with_file_a p body fs) = fs(p \<mapsto> outcome (body (h5_open_a fs p)))"
  by (simp add: with_file_a_def split: sum.splits prod.splits)

lemma raised_with_file_a:
  "raised (with_file_a p body fs) = raised (body (h5_open_a fs p))"
  by (simp add: with_file_a_def split: sum.splits prod.splits)

lemma outcome_and_then:
  "outcome (and_then r k) = (if raised r = None then outcome (k (outcome r)) else outcome r)"
  by (cases r) auto

lemma raised_and_then:
  "raised (and_then r k) = (if raised r = None then raised (k (outcome r)) else raised r)"
  by (cases r) auto

lemma summary_frame:
  "summary (outcome (append_ibstates n bs f)) = summary f"
  "summary (outcome (append_tstates n ts f)) = summary f"
  "summary (outcome (append_bin_mapper sim f)) = summary f"
  "summary (outcome (require_iter_group cfg n f)) = summary f"
  by (simp_all add: append_ibstates_def append_tstates_def append_bin_mapper_def
      require_iter_group_def Let_def split: option.splits)

lemma summary_after_gated:
  "summary (outcome (if c then append_ibstates n bs f else Inr f)) = summary f"
  "summary (outcome (if c then append_tstates n ts f else Inr f)) = summary f"
  "summary (outcome (if c then append_bin_mapper sim f else Inr f)) = summary f"
  by (simp_all add: summary_frame)

lemma summary_append:
  "summary (the (outcome (append_iter self (sim # sims) binned_sims basis_states target_states fs)
      (h5file self))) =
   summary (outcome (append_summary (iteration_id sim) (sim # sims) binned_sims
      (h5_open_a fs (h5file self))))"
  by (simp add: append_iter_def outcome_with_file_a Let_def outcome_and_then summary_frame)
lemma append_summary_cong:
  assumes "map weight xs = map weight ys" and "map (map weight) bs = map (map weight) bs'"
  shows "append_summary n (sim # xs) bs f = append_summary n (sim # ys) bs' f"
proof -
  have len: "length xs = length ys"
    using assms(1) by (rule map_eq_imp_length_eq)
  have bins: "map (\<lambda>sims. py_sum (map weight sims)) bs =
      map (\<lambda>sims. py_sum (map weight sims)) bs'"
  proof -
    have eq: "map (\<lambda>sims. py_sum (map weight sims)) b = map py_sum (map (map weight) b)" for b
      by simp
    show ?thesis by (simp only: eq assms(2))
  qed
  show ?thesis
    unfolding append_summary_def bins
    using assms(1) len by (simp cong: sum.case_cong)
qed

lemma summary_init_file: "summary (init_file cfg) = Some [zero_summary_row]"
  by (simp add: init_file_def set_attr_def Let_def)

lemma fs0_store0: "fs0 (h5file store0) = Some (init_file cfg0)"
  by (simp add: fs0_def store0_def WestpaH5File_init_def)


lemma summary_fs1:
  "\<exists>f1. fs1 ''west.h5'' = Some f1 \<and> summary f1 \<noteq> Some [zero_summary_row]"
proof -
  have pos: "0 < iteration_id sim_a" by (simp add: sim_a_def)
  have "fs1 ''west.h5'' = Some (the (fs1 ''west.h5''))"
    by (simp add: fs1_def append_iter_def outcome_with_file_a Let_def store0_def)
  moreover have "summary (the (fs1 ''west.h5'')) \<noteq> Some [zero_summary_row]"
  proof -
    have "summary (the (fs1 ''west.h5'')) =
        summary (outcome (append_summary (iteration_id sim_a) [sim_a, sim_b] [[sim_a, sim_b]]
          (init_file cfg0)))"
      using summary_append [of store0 sim_a "[sim_b]" "[[sim_a, sim_b]]" "[]" "[]" fs0]
        fs0_store0
      by (simp add: fs1_def store0_def h5_open_a_def)
    also have "\<dots> \<noteq> Some [zero_summary_row]"
      by (simp add: append_summary_pos [OF pos _ summary_init_file] zero_summary_row_def)
        (simp add: sim_a_def)
    finally show ?thesis .
  qed
  ultimately show ?thesis by blast
qed

lemma resize_grow_one [simp]: "resize (Suc (length xs)) x xs = xs @ [x]"
  by (simp add: resize_def)



lemma ib_init_file: "ib_index_of (init_file cfg) = []" "ib_groups_of (init_file cfg) = Map.empty"
  by (simp_all add: ib_index_of_def ib_groups_of_def init_file_def set_attr_def empty_file_def Let_def)

lemma resize_Nil [simp]: "resize w x [] = replicate w x"
  by (simp add: resize_def)

lemma append_bin_mapper_wf:
  assumes "bin_wf f"
  shows "raised (append_bin_mapper sim f) = None"
    and "bin_wf (outcome (append_bin_mapper sim f))"
    and "bin_index_of (outcome (append_bin_mapper sim f)) =
      bin_index_of f @
        [\<lparr>hash = binner_hash sim, pickle_len = length (binner_pickle sim)\<rparr>]"
    and "pickle_width_of (outcome (append_bin_mapper sim f)) =
      max (pickle_width_of f) (length (binner_pickle sim))"
    and "pickle_rows_of (outcome (append_bin_mapper sim f)) =
      map (resize (max (pickle_width_of f) (length (binner_pickle sim))) 0) (pickle_rows_of f) @
        [binner_pickle sim @
          replicate (max (pickle_width_of f) (length (binner_pickle sim)) -
            length (binner_pickle sim)) 0]"
  using assms
  by (auto simp add: append_bin_mapper_def Let_def bin_wf_def bin_index_of_def
      pickle_width_of_def pickle_rows_of_def empty_bin_group_def zero_binning_row_def
      resize2_def nth_append list_update_append
      split: option.splits)

lemma take_resize: "n \<le> w \<Longrightarrow> n \<le> length xs \<Longrightarrow> take n (resize w x xs) = take n xs"
  by (simp add: resize_def)

lemma bin_wf_init_file: "bin_wf (init_file cfg)"
  by (simp add: bin_wf_def init_file_def set_attr_def empty_file_def Let_def)

subsection \<open>What each writer adds to the journal\<close>

lemma new_writes_refl [simp]: "new_writes f f = []"
  by (simp add: new_writes_def)

lemma append_summary_journal:
  "journal (outcome (append_summary n ni bs f)) =
     journal f @ new_writes f (outcome (append_summary n ni bs f))"
  "w \<in> set (new_writes f (outcome (append_summary n ni bs f))) \<Longrightarrow> section_of w = ''summary''"
  "raised (append_summary n ni bs f) = None \<Longrightarrow>
     SetItem [''summary''] \<in> set (new_writes f (outcome (append_summary n ni bs f)))"
  by (auto simp add: append_summary_def Let_def new_writes_def section_of_def
      split: sum.splits list.splits option.splits if_splits)

lemma append_ibstates_journal:
  "journal (outcome (append_ibstates n bs f)) =
     journal f @ new_writes f (outcome (append_ibstates n bs f))"
  "w \<in> set (new_writes f (outcome (append_ibstates n bs f))) \<Longrightarrow> section_of w = ''ibstates''"
  "raised (append_ibstates n bs f) = None \<Longrightarrow>
     SetItem [''ibstates'', ''index''] \<in> set (new_writes f (outcome (append_ibstates n bs f)))"
  by (auto simp add: append_ibstates_def Let_def new_writes_def section_of_def
      split: option.splits if_splits)

lemma append_tstates_journal:
  "journal (outcome (append_tstates n ts f)) =
     journal f @ new_writes f (outcome (append_tstates n ts f))"
  "w \<in> set (new_writes f (outcome (append_tstates n ts f))) \<Longrightarrow> section_of w = ''tstates''"
  "raised (append_tstates n ts f) = None \<Longrightarrow>
     SetItem [''tstates'', ''index''] \<in> set (new_writes f (outcome (append_tstates n ts f)))"
  by (auto simp add: append_tstates_def Let_def new_writes_def section_of_def
      split: option.splits if_splits)

lemma append_bin_mapper_journal:
  "journal (outcome (append_bin_mapper sim f)) =
     journal f @ new_writes f (outcome (append_bin_mapper sim f))"
  "w \<in> set (new_writes f (outcome (append_bin_mapper sim f))) \<Longrightarrow>
     section_of w = ''bin_topologies''"
  "raised (append_bin_mapper sim f) = None \<Longrightarrow>
     SetItem [''bin_topologies'', ''pickles''] \<in>
       set (new_writes f (outcome (append_bin_mapper sim f)))"
  by (auto simp add: append_bin_mapper_def Let_def new_writes_def section_of_def
      split: option.splits if_splits)

lemma require_iter_group_journal:
  "raised (require_iter_group cfg n f) = None"
  "journal (outcome (require_iter_group cfg n f)) =
     journal f @ new_writes f (outcome (require_iter_group cfg n f))"
  "new_writes f (outcome (require_iter_group cfg n f)) =
     (if iter_name cfg n \<in> dom (iterations_of f) then []
      else [CreateGroup [''iterations'', iter_name cfg n]]) @
     [SetAttr [''iterations'', iter_name cfg n] ''n_iter'']"
  "iterations_of (outcome (require_iter_group cfg n f)) (iter_name cfg n) \<noteq> None"
  "n_iter_attr (the (iterations_of (outcome (require_iter_group cfg n f)) (iter_name cfg n))) =
     Some n"
  by (auto simp add: require_iter_group_def Let_def new_writes_def iterations_of_def
      split: option.splits)

lemma frame_append_summary:
  "iterations (outcome (append_summary n ni bs f)) = iterations f"
  "ibstates (outcome (append_summary n ni bs f)) = ibstates f"
  "tstates (outcome (append_summary n ni bs f)) = tstates f"
  "bin_topologies (outcome (append_summary n ni bs f)) = bin_topologies f"
  by (auto simp add: append_summary_def Let_def
      split: sum.splits list.splits option.splits if_splits)

lemma frame_append_ibstates:
  "iterations (outcome (append_ibstates n bs f)) = iterations f"
  "tstates (outcome (append_ibstates n bs f)) = tstates f"
  "bin_topologies (outcome (append_ibstates n bs f)) = bin_topologies f"
  by (simp_all add: append_ibstates_def Let_def split: option.splits)

lemma frame_append_tstates:
  "iterations (outcome (append_tstates n ts f)) = iterations f"
  "ibstates (outcome (append_tstates n ts f)) = ibstates f"
  "bin_topologies (outcome (append_tstates n ts f)) = bin_topologies f"
  by (simp_all add: append_tstates_def Let_def split: option.splits)

lemma frame_append_bin_mapper:
  "iterations (outcome (append_bin_mapper sim f)) = iterations f"
  "ibstates (outcome (append_bin_mapper sim f)) = ibstates f"
  "tstates (outcome (append_bin_mapper sim f)) = tstates f"
  by (simp_all add: append_bin_mapper_def Let_def split: option.splits)

lemma frame_require_iter_group:
  "ibstates (outcome (require_iter_group cfg n f)) = ibstates f"
  "tstates (outcome (require_iter_group cfg n f)) = tstates f"
  "bin_topologies (outcome (require_iter_group cfg n f)) = bin_topologies f"
  by (simp_all add: require_iter_group_def Let_def split: option.splits)

lemma h5_open_a_upd [simp]: "h5_open_a (fs(p \<mapsto> f)) p = f"
  by (simp add: h5_open_a_def)

lemma new_writes_append:
  "journal g = journal f @ ws \<Longrightarrow> new_writes f g = ws"
  by (simp add: new_writes_def)

lemma raised_and_then_None:
  "raised (and_then r k) = None \<longleftrightarrow> raised r = None \<and> raised (k (outcome r)) = None"
  by (cases r) auto

lemma chain5_outcome:
  "outcome (and_then (w1 f) (\<lambda>f. and_then (w2 f) (\<lambda>f. and_then (w3 f)
      (\<lambda>f. and_then (w4 f) (\<lambda>f. w5 f))))) =
   (if raised (w1 f) = None then
      if raised (w2 (outcome (w1 f))) = None then
        if raised (w3 (outcome (w2 (outcome (w1 f))))) = None then
          if raised (w4 (outcome (w3 (outcome (w2 (outcome (w1 f))))))) = None then
            outcome (w5 (outcome (w4 (outcome (w3 (outcome (w2 (outcome (w1 f)))))))))
          else outcome (w4 (outcome (w3 (outcome (w2 (outcome (w1 f)))))))
        else outcome (w3 (outcome (w2 (outcome (w1 f)))))
      else outcome (w2 (outcome (w1 f)))
    else outcome (w1 f))"
  by (simp add: outcome_and_then raised_and_then)

lemma chain5_raised:
  "raised (and_then (w1 f) (\<lambda>f. and_then (w2 f) (\<lambda>f. and_then (w3 f)
      (\<lambda>f. and_then (w4 f) (\<lambda>f. w5 f))))) = None \<longleftrightarrow>
   raised (w1 f) = None \<and>
   raised (w2 (outcome (w1 f))) = None \<and>
   raised (w3 (outcome (w2 (outcome (w1 f))))) = None \<and>
   raised (w4 (outcome (w3 (outcome (w2 (outcome (w1 f))))))) = None \<and>
   raised (w5 (outcome (w4 (outcome (w3 (outcome (w2 (outcome (w1 f))))))))) = None"
  by (simp add: raised_and_then_None)

lemma append_ibstates_rows:
  "length (ib_index_of (outcome (append_ibstates n bs f))) = length (ib_index_of f) + 1"
  by (simp add: append_ibstates_def Let_def ib_index_of_def empty_ibstates_group_def
      split: option.splits)

lemma append_tstates_rows:
  "length (ts_index_of (outcome (append_tstates n ts f))) = length (ts_index_of f) + 1"
  by (simp add: append_tstates_def Let_def ts_index_of_def empty_tstates_group_def
      split: option.splits)

lemma append_bin_mapper_rows:
  "raised (append_bin_mapper sim f) = None \<Longrightarrow>
     length (bin_index_of (outcome (append_bin_mapper sim f))) = length (bin_index_of f) + 1"
  by (auto simp add: append_bin_mapper_def Let_def bin_index_of_def empty_bin_group_def
      split: option.splits if_splits)

lemma index_of_cong:
  "ibstates g = ibstates f \<Longrightarrow> ib_index_of g = ib_index_of f"
  "tstates g = tstates f \<Longrightarrow> ts_index_of g = ts_index_of f"
  "bin_topologies g = bin_topologies f \<Longrightarrow> bin_index_of g = bin_index_of f"
  by (simp_all add: ib_index_of_def ts_index_of_def bin_index_of_def)

lemma append_iter_trace:
  fixes self :: WestpaH5File and sim :: SimMetadata and sims :: "SimMetadata list"
    and binned :: "SimMetadata list list" and basis :: BasisStates
    and targets :: "TargetState list" and fs :: filesystem
  defines "n \<equiv> iteration_id sim"
  defines "f0 \<equiv> h5_open_a fs (h5file self)"
  defines "R \<equiv> append_iter self (sim # sims) binned basis targets fs"
  defines "F \<equiv> h5_open_a (outcome R) (h5file self)"
  shows "\<exists>t1 t2 t3 t4 t5.
     new_writes f0 F = t1 @ t2 @ t3 @ t4 @ t5 \<and>
     (\<forall>w\<in>set t1. section_of w = ''summary'') \<and>
     (\<forall>w\<in>set t2. section_of w = ''ibstates'') \<and>
     (\<forall>w\<in>set t3. section_of w = ''tstates'') \<and>
     (\<forall>w\<in>set t4. section_of w = ''bin_topologies'') \<and>
     (n = 0 \<longrightarrow> t2 = [] \<and> t3 = [] \<and> t4 = []) \<and>
     (raised R \<noteq> None \<longrightarrow> t5 = []) \<and>
     journal F = journal f0 @ new_writes f0 F \<and>
     (n = 0 \<longrightarrow> ibstates F = ibstates f0 \<and> tstates F = tstates f0 \<and>
        bin_topologies F = bin_topologies f0) \<and>
     (raised R = None \<longrightarrow>
        SetItem [''summary''] \<in> set t1 \<and>
        (n \<noteq> 0 \<longrightarrow> t2 \<noteq> [] \<and> t3 \<noteq> [] \<and> t4 \<noteq> []) \<and>
        t5 = (if iter_name (config self) n \<in> dom (iterations_of f0) then []
              else [CreateGroup [''iterations'', iter_name (config self) n]]) @
             [SetAttr [''iterations'', iter_name (config self) n] ''n_iter''] \<and>
        iterations_of F (iter_name (config self) n) \<noteq> None \<and>
        n_iter_attr (the (iterations_of F (iter_name (config self) n))) = Some n \<and>
        (n \<noteq> 0 \<longrightarrow>
           length (ib_index_of F) = length (ib_index_of f0) + 1 \<and>
           length (ts_index_of F) = length (ts_index_of f0) + 1 \<and>
           length (bin_index_of F) = length (bin_index_of f0) + 1))"
proof -
  define w1 where "w1 = append_summary n (sim # sims) binned"
  define w2 where "w2 = (\<lambda>f. if n \<noteq> 0 then append_ibstates n basis f else Inr f)"
  define w3 where "w3 = (\<lambda>f. if n \<noteq> 0 then append_tstates n targets f else Inr f)"
  define w4 where "w4 = (\<lambda>f. if n \<noteq> 0 then append_bin_mapper sim f else Inr f)"
  define w5 where "w5 = require_iter_group (config self) n"
  define r1 where "r1 = w1 f0"
  define r2 where "r2 = w2 (outcome r1)"
  define r3 where "r3 = w3 (outcome r2)"
  define r4 where "r4 = w4 (outcome r3)"
  define r5 where "r5 = w5 (outcome r4)"
  define ok1 where "ok1 = (raised r1 = None)"
  define ok2 where "ok2 = (ok1 \<and> raised r2 = None)"
  define ok3 where "ok3 = (ok2 \<and> raised r3 = None)"
  define ok4 where "ok4 = (ok3 \<and> raised r4 = None)"
  define t1 where "t1 = new_writes f0 (outcome r1)"
  define t2 where "t2 = (if ok1 then new_writes (outcome r1) (outcome r2) else [])"
  define t3 where "t3 = (if ok2 then new_writes (outcome r2) (outcome r3) else [])"
  define t4 where "t4 = (if ok3 then new_writes (outcome r3) (outcome r4) else [])"
  define t5 where "t5 = (if ok4 then new_writes (outcome r4) (outcome r5) else [])"
  have R: "R = with_file_a (h5file self)
      (\<lambda>f. and_then (w1 f) (\<lambda>f. and_then (w2 f) (\<lambda>f. and_then (w3 f)
        (\<lambda>f. and_then (w4 f) (\<lambda>f. w5 f))))) fs"
    unfolding R_def append_iter_def w1_def w2_def w3_def w4_def w5_def n_def
    by (simp add: Let_def)
  have w5_ok: "raised (w5 g) = None" for g
    unfolding w5_def by (rule require_iter_group_journal(1))
  have F: "F = (if ok4 then outcome r5 else if ok3 then outcome r4 else if ok2 then outcome r3
      else if ok1 then outcome r2 else outcome r1)"
    unfolding F_def R outcome_with_file_a h5_open_a_upd chain5_outcome
    by (simp add: r1_def r2_def r3_def r4_def r5_def ok1_def ok2_def ok3_def ok4_def f0_def)
  have raisedR: "raised R = None \<longleftrightarrow> ok4"
    unfolding R raised_with_file_a chain5_raised
    by (simp add: w5_ok r1_def r2_def r3_def r4_def ok1_def ok2_def ok3_def ok4_def f0_def)
  have j1: "journal (outcome r1) = journal f0 @ t1"
    unfolding r1_def t1_def w1_def by (rule append_summary_journal(1))
  have j2: "journal (outcome r2) = journal (outcome r1) @ new_writes (outcome r1) (outcome r2)"
    unfolding r2_def w2_def by (simp add: append_ibstates_journal(1) [symmetric])
  have j3: "journal (outcome r3) = journal (outcome r2) @ new_writes (outcome r2) (outcome r3)"
    unfolding r3_def w3_def by (simp add: append_tstates_journal(1) [symmetric])
  have j4: "journal (outcome r4) = journal (outcome r3) @ new_writes (outcome r3) (outcome r4)"
    unfolding r4_def w4_def by (simp add: append_bin_mapper_journal(1) [symmetric])
  have j5: "journal (outcome r5) = journal (outcome r4) @ new_writes (outcome r4) (outcome r5)"
    unfolding r5_def w5_def by (rule require_iter_group_journal(2))
  have "journal F = journal f0 @ t1 @ t2 @ t3 @ t4 @ t5"
    unfolding F t2_def t3_def t4_def t5_def
    using j1 j2 j3 j4 j5
    by (auto simp add: ok2_def ok3_def ok4_def)
  then have trace: "new_writes f0 F = t1 @ t2 @ t3 @ t4 @ t5"
    and prefix: "journal F = journal f0 @ new_writes f0 F"
    by (simp_all add: new_writes_def)
  have untouched: "ibstates F = ibstates f0 \<and> tstates F = tstates f0 \<and>
      bin_topologies F = bin_topologies f0" if "n = 0"
    unfolding F using that
    by (simp add: r5_def r4_def r3_def r2_def r1_def w1_def w2_def w3_def w4_def w5_def
        frame_append_summary frame_require_iter_group)
  have s1: "\<forall>w\<in>set t1. section_of w = ''summary''"
    unfolding t1_def r1_def w1_def using append_summary_journal(2) by blast
  have s2: "\<forall>w\<in>set t2. section_of w = ''ibstates''"
    unfolding t2_def r2_def w2_def using append_ibstates_journal(2) by (auto split: if_splits)
  have s3: "\<forall>w\<in>set t3. section_of w = ''tstates''"
    unfolding t3_def r3_def w3_def using append_tstates_journal(2) by (auto split: if_splits)
  have s4: "\<forall>w\<in>set t4. section_of w = ''bin_topologies''"
    unfolding t4_def r4_def w4_def using append_bin_mapper_journal(2) by (auto split: if_splits)
  have zero: "n = 0 \<longrightarrow> t2 = [] \<and> t3 = [] \<and> t4 = []"
    by (simp add: t2_def t3_def t4_def r2_def r3_def r4_def w2_def w3_def w4_def)
  have failed: "raised R \<noteq> None \<longrightarrow> t5 = []"
    using raisedR by (simp add: t5_def)
  have its: "iterations (outcome r4) = iterations f0"
    by (simp add: r4_def r3_def r2_def r1_def w1_def w2_def w3_def w4_def
        frame_append_summary frame_append_ibstates frame_append_tstates frame_append_bin_mapper)
  then have its_of: "iterations_of (outcome r4) = iterations_of f0"
    by (simp add: iterations_of_def)
  have success: "SetItem [''summary''] \<in> set t1 \<and>
        (n \<noteq> 0 \<longrightarrow> t2 \<noteq> [] \<and> t3 \<noteq> [] \<and> t4 \<noteq> []) \<and>
        t5 = (if iter_name (config self) n \<in> dom (iterations_of f0) then []
              else [CreateGroup [''iterations'', iter_name (config self) n]]) @
             [SetAttr [''iterations'', iter_name (config self) n] ''n_iter''] \<and>
        iterations_of F (iter_name (config self) n) \<noteq> None \<and>
        n_iter_attr (the (iterations_of F (iter_name (config self) n))) = Some n \<and>
        (n \<noteq> 0 \<longrightarrow>
           length (ib_index_of F) = length (ib_index_of f0) + 1 \<and>
           length (ts_index_of F) = length (ts_index_of f0) + 1 \<and>
           length (bin_index_of F) = length (bin_index_of f0) + 1)"
    if ok: "raised R = None"
  proof -
    from ok raisedR have ok4: ok4 by simp
    then have oks: "raised r1 = None" "raised r2 = None" "raised r3 = None" "raised r4 = None"
      and ok123: ok1 ok2 ok3
      by (simp_all add: ok4_def ok3_def ok2_def ok1_def)
    have a: "SetItem [''summary''] \<in> set t1"
      using oks(1) unfolding t1_def r1_def w1_def by (rule append_summary_journal(3))
    have b: "t2 \<noteq> [] \<and> t3 \<noteq> [] \<and> t4 \<noteq> []" if "n \<noteq> 0"
      using that oks(2,3,4) ok123
        append_ibstates_journal(3) [of n basis "outcome r1"]
        append_tstates_journal(3) [of n targets "outcome r2"]
        append_bin_mapper_journal(3) [of sim "outcome r3"]
      by (auto simp add: t2_def t3_def t4_def r2_def r3_def r4_def w2_def w3_def w4_def)
    have c: "t5 = (if iter_name (config self) n \<in> dom (iterations_of f0) then []
              else [CreateGroup [''iterations'', iter_name (config self) n]]) @
             [SetAttr [''iterations'', iter_name (config self) n] ''n_iter'']"
      using ok4 by (simp add: t5_def r5_def w5_def require_iter_group_journal(3) its_of)
    have Fr5: "F = outcome r5" using ok4 by (simp add: F)
    have d: "iterations_of F (iter_name (config self) n) \<noteq> None"
      unfolding Fr5 r5_def w5_def by (rule require_iter_group_journal(4))
    have e: "n_iter_attr (the (iterations_of F (iter_name (config self) n))) = Some n"
      unfolding Fr5 r5_def w5_def by (rule require_iter_group_journal(5))
    have g: "length (ib_index_of F) = length (ib_index_of f0) + 1 \<and>
           length (ts_index_of F) = length (ts_index_of f0) + 1 \<and>
           length (bin_index_of F) = length (bin_index_of f0) + 1" if pos: "n \<noteq> 0"
    proof -
      have r2: "r2 = append_ibstates n basis (outcome r1)"
        and r3: "r3 = append_tstates n targets (outcome r2)"
        and r4: "r4 = append_bin_mapper sim (outcome r3)"
        using pos by (simp_all add: r2_def r3_def r4_def w2_def w3_def w4_def)
      have "ibstates F = ibstates (outcome r2)"
        unfolding Fr5 r5_def w5_def r4 r3
        by (simp add: frame_require_iter_group frame_append_bin_mapper frame_append_tstates)
      then have "ib_index_of F = ib_index_of (outcome r2)" by (rule index_of_cong(1))
      moreover have "ib_index_of (outcome r1) = ib_index_of f0"
        unfolding r1_def w1_def by (rule index_of_cong(1)) (rule frame_append_summary(2))
      ultimately have ib: "length (ib_index_of F) = length (ib_index_of f0) + 1"
        unfolding r2 by (simp add: append_ibstates_rows)
      have "tstates F = tstates (outcome r3)"
        unfolding Fr5 r5_def w5_def r4
        by (simp add: frame_require_iter_group frame_append_bin_mapper)
      then have "ts_index_of F = ts_index_of (outcome r3)" by (rule index_of_cong(2))
      moreover have "tstates (outcome r2) = tstates f0"
        unfolding r2 r1_def w1_def by (simp add: frame_append_ibstates frame_append_summary)
      then have "ts_index_of (outcome r2) = ts_index_of f0" by (rule index_of_cong(2))
      ultimately have ts: "length (ts_index_of F) = length (ts_index_of f0) + 1"
        unfolding r3 by (simp add: append_tstates_rows)
      have "bin_topologies F = bin_topologies (outcome r4)"
        unfolding Fr5 r5_def w5_def by (simp add: frame_require_iter_group)
      then have "bin_index_of F = bin_index_of (outcome r4)" by (rule index_of_cong(3))
      moreover have "bin_topologies (outcome r3) = bin_topologies f0"
        unfolding r3 r2 r1_def w1_def
        by (simp add: frame_append_tstates frame_append_ibstates frame_append_summary)
      then have "bin_index_of (outcome r3) = bin_index_of f0" by (rule index_of_cong(3))
      moreover have "raised (append_bin_mapper sim (outcome r3)) = None"
        using oks(4) by (simp add: r4)
      ultimately have bm: "length (bin_index_of F) = length (bin_index_of f0) + 1"
        unfolding r4 by (simp add: append_bin_mapper_rows)
      show ?thesis using ib ts bm by simp
    qed
    show ?thesis
      using a b c d e g by (intro conjI impI) simp_all
  qed
  show ?thesis
  proof (intro exI conjI)
    show "new_writes f0 F = t1 @ t2 @ t3 @ t4 @ t5" by (rule trace)
    show "\<forall>w\<in>set t1. section_of w = ''summary''" by (rule s1)
    show "\<forall>w\<in>set t2. section_of w = ''ibstates''" by (rule s2)
    show "\<forall>w\<in>set t3. section_of w = ''tstates''" by (rule s3)
    show "\<forall>w\<in>set t4. section_of w = ''bin_topologies''" by (rule s4)
    show "n = 0 \<longrightarrow> t2 = [] \<and> t3 = [] \<and> t4 = []" by (rule zero)
    show "raised R \<noteq> None \<longrightarrow> t5 = []" by (rule failed)
    show "journal F = journal f0 @ new_writes f0 F" by (rule prefix)
    show "n = 0 \<longrightarrow> ibstates F = ibstates f0 \<and> tstates F = tstates f0 \<and>
        bin_topologies F = bin_topologies f0"
      using untouched by (rule impI)
    show "raised R = None \<longrightarrow>
        SetItem [''summary''] \<in> set t1 \<and>
        (n \<noteq> 0 \<longrightarrow> t2 \<noteq> [] \<and> t3 \<noteq> [] \<and> t4 \<noteq> []) \<and>
        t5 = (if iter_name (config self) n \<in> dom (iterations_of f0) then []
              else [CreateGroup [''iterations'', iter_name (config self) n]]) @
             [SetAttr [''iterations'', iter_name (config self) n] ''n_iter''] \<and>
        iterations_of F (iter_name (config self) n) \<noteq> None \<and>
        n_iter_attr (the (iterations_of F (iter_name (config self) n))) = Some n \<and>
        (n \<noteq> 0 \<longrightarrow>
           length (ib_index_of F) = length (ib_index_of f0) + 1 \<and>
           length (ts_index_of F) = length (ts_index_of f0) + 1 \<and>
           length (bin_index_of F) = length (bin_index_of f0) + 1)"
      using success by (rule impI)
  qed
qed

subsection \<open>The first iteration on a new store\<close>

lemma append_ibstates_new: "ibstates f = None \<Longrightarrow> raised (append_ibstates n bs f) = None"
  by (simp add: append_ibstates_def Let_def empty_ibstates_group_def)

lemma append_tstates_new: "tstates f = None \<Longrightarrow> raised (append_tstates n ts f) = None"
  by (simp add: append_tstates_def Let_def empty_tstates_group_def)

lemma append_bin_mapper_new:
  "bin_topologies f = None \<Longrightarrow> raised (append_bin_mapper sim f) = None"
  by (simp add: append_bin_mapper_def Let_def empty_bin_group_def)

lemma groups_init_file:
  "ibstates (init_file cfg) = None" "tstates (init_file cfg) = None"
  "bin_topologies (init_file cfg) = None"
  by (simp_all add: init_file_def set_attr_def empty_file_def Let_def)

lemma example_append_ok:
  "raised (append_iter store0 [sim_a, sim_b] [[sim_a, sim_b]] [] [] fs0) = None"
proof -
  have pos: "0 < iteration_id sim_a" by (simp add: sim_a_def)
  have opened: "h5_open_a fs0 (h5file store0) = init_file cfg0"
    using fs0_store0 by (simp add: h5_open_a_def)
  have first: "raised (append_summary (iteration_id sim_a) [sim_a, sim_b] [[sim_a, sim_b]]
      (init_file cfg0)) = None"
    by (simp add: append_summary_pos [OF pos _ summary_init_file])
  show ?thesis
    unfolding append_iter_def
    using pos first
    by (simp add: Let_def raised_with_file_a raised_and_then_None opened
        require_iter_group_journal(1) append_ibstates_new append_tstates_new
        append_bin_mapper_new frame_append_summary frame_append_ibstates
        frame_append_tstates groups_init_file)
qed

subsection \<open>Table lengths and references\<close>

lemma append_summary_len:
  "summary_len f \<le> summary_len (outcome (append_summary n ni bs f))"
  by (auto simp add: append_summary_def Let_def summary_len_def
      split: sum.splits list.splits option.splits if_splits)

lemma append_summary_reaches:
  "raised (append_summary n ni bs f) = None \<Longrightarrow>
     n \<le> summary_len (outcome (append_summary n ni bs f))"
  by (auto simp add: append_summary_def Let_def summary_len_def
      split: sum.splits list.splits option.splits if_splits)

lemma append_bin_mapper_len:
  "length (bin_index_of f) \<le> length (bin_index_of (outcome (append_bin_mapper sim f)))"
  "length (pickle_rows_of f) \<le> length (pickle_rows_of (outcome (append_bin_mapper sim f)))"
  by (auto simp add: append_bin_mapper_def Let_def bin_index_of_def pickle_rows_of_def
      empty_bin_group_def resize2_def split: option.splits if_splits)

lemma views_cong:
  "summary g = summary f \<Longrightarrow> summary_len g = summary_len f"
  "ibstates g = ibstates f \<Longrightarrow> ib_groups_of g = ib_groups_of f"
  "tstates g = tstates f \<Longrightarrow> ts_groups_of g = ts_groups_of f"
  "bin_topologies g = bin_topologies f \<Longrightarrow> pickle_rows_of g = pickle_rows_of f"
  "bin_topologies g = bin_topologies f \<Longrightarrow> bin_wf g = bin_wf f"
  "iterations g = iterations f \<Longrightarrow> iterations_of g = iterations_of f"
  by (simp_all add: summary_len_def ib_groups_of_def ts_groups_of_def pickle_rows_of_def
      bin_wf_def iterations_of_def)

lemma tables_le_refl: "tables_le f f"
  by (simp add: tables_le_def)

lemma tables_le_trans: "tables_le f g \<Longrightarrow> tables_le g h \<Longrightarrow> tables_le f h"
  by (auto simp add: tables_le_def)

lemma run_op_tables_le: "tables_le f (outcome (run_op op f))"
proof (cases op)
  case (Op_summary n ni bs)
  then show ?thesis
    by (simp add: tables_le_def append_summary_len
        index_of_cong(1) [OF frame_append_summary(2)]
        index_of_cong(2) [OF frame_append_summary(3)]
        index_of_cong(3) [OF frame_append_summary(4)]
        views_cong(4) [OF frame_append_summary(4)])
next
  case (Op_ibstates n bs)
  then show ?thesis
    by (simp add: tables_le_def append_ibstates_rows
        views_cong(1) [OF summary_frame(1)]
        index_of_cong(2) [OF frame_append_ibstates(2)]
        index_of_cong(3) [OF frame_append_ibstates(3)]
        views_cong(4) [OF frame_append_ibstates(3)])
next
  case (Op_tstates n ts)
  then show ?thesis
    by (simp add: tables_le_def append_tstates_rows
        views_cong(1) [OF summary_frame(2)]
        index_of_cong(1) [OF frame_append_tstates(2)]
        index_of_cong(3) [OF frame_append_tstates(3)]
        views_cong(4) [OF frame_append_tstates(3)])
next
  case (Op_bin_mapper sim)
  then show ?thesis
    by (simp add: tables_le_def append_bin_mapper_len
        views_cong(1) [OF summary_frame(3)]
        index_of_cong(1) [OF frame_append_bin_mapper(2)]
        index_of_cong(2) [OF frame_append_bin_mapper(3)])
qed

lemma run_ops_tables_le: "tables_le f (run_ops ops f)"
proof (induction ops arbitrary: f)
  case Nil
  show ?case by (simp add: tables_le_refl)
next
  case (Cons op ops)
  have "tables_le f (outcome (run_op op f))" by (rule run_op_tables_le)
  moreover have "tables_le (outcome (run_op op f)) (run_ops ops (outcome (run_op op f)))"
    by (rule Cons.IH)
  ultimately show ?case by (simp add: tables_le_trans)
qed


lemma append_ibstates_names:
  "dom (ib_groups_of (outcome (append_ibstates n bs f))) \<subseteq>
     insert (str_nat (length (ib_index_of f))) (dom (ib_groups_of f))"
  by (auto simp add: append_ibstates_def Let_def ib_groups_of_def ib_index_of_def
      empty_ibstates_group_def split: option.splits if_splits)

lemma append_tstates_names:
  "dom (ts_groups_of (outcome (append_tstates n ts f))) \<subseteq>
     insert (str_nat (length (ts_index_of f))) (dom (ts_groups_of f))"
  by (auto simp add: append_tstates_def Let_def ts_groups_of_def ts_index_of_def
      empty_tstates_group_def split: option.splits if_splits)

lemma bin_wf_len: "bin_wf f \<Longrightarrow> length (bin_index_of f) = length (pickle_rows_of f)"
  by (auto simp add: bin_wf_def bin_index_of_def pickle_rows_of_def split: option.splits)

lemma names_widen:
  assumes "\<forall>name\<in>A. \<exists>k<m. name = str_nat k" and "B \<subseteq> insert (str_nat m) A"
  shows "\<forall>name\<in>B. \<exists>k<m + 1. name = str_nat k"
proof
  fix name assume "name \<in> B"
  with assms(2) have "name = str_nat m \<or> name \<in> A" by auto
  then show "\<exists>k<m + 1. name = str_nat k"
  proof
    assume "name = str_nat m"
    then show ?thesis by auto
  next
    assume "name \<in> A"
    with assms(1) obtain k where "k < m" "name = str_nat k" by blast
    then show ?thesis by (intro exI [of _ k]) simp
  qed
qed

lemma iter_refs_mono:
  assumes "\<forall>g\<in>ran (iterations_of f). \<forall>n. n_iter_attr g = Some n \<longrightarrow> n \<le> summary_len f"
    and "iterations f' = iterations f" and "summary_len f \<le> summary_len f'"
  shows "\<forall>g\<in>ran (iterations_of f'). \<forall>n. n_iter_attr g = Some n \<longrightarrow> n \<le> summary_len f'"
  using assms views_cong(6) [OF assms(2)] by (metis le_trans)

lemma run_op_refs_in_range:
  assumes "refs_in_range f"
  shows "refs_in_range (outcome (run_op op f))"
proof -
  let ?g = "outcome (run_op op f)"
  from assms have ib: "\<forall>name\<in>dom (ib_groups_of f). \<exists>k<length (ib_index_of f). name = str_nat k"
    and ts: "\<forall>name\<in>dom (ts_groups_of f). \<exists>k<length (ts_index_of f). name = str_nat k"
    and wf: "bin_wf f"
    and it: "\<forall>g\<in>ran (iterations_of f). \<forall>n. n_iter_attr g = Some n \<longrightarrow> n \<le> summary_len f"
    by (simp_all add: refs_in_range_def)
  have len: "summary_len f \<le> summary_len ?g"
    using run_op_tables_le [of f op] by (simp add: tables_le_def)
  have its: "iterations ?g = iterations f"
    by (cases op) (simp_all add: frame_append_summary frame_append_ibstates
        frame_append_tstates frame_append_bin_mapper)
  have it': "\<forall>g\<in>ran (iterations_of ?g). \<forall>n. n_iter_attr g = Some n \<longrightarrow> n \<le> summary_len ?g"
    using it its len by (rule iter_refs_mono)
  have ib': "\<forall>name\<in>dom (ib_groups_of ?g). \<exists>k<length (ib_index_of ?g). name = str_nat k"
  proof (cases op)
    case (Op_ibstates n bs)
    show ?thesis
      unfolding Op_ibstates run_op.simps append_ibstates_rows
      using ib append_ibstates_names by (rule names_widen)
  next
    case (Op_summary n ni bs)
    then show ?thesis
      using ib by (simp add: index_of_cong(1) [OF frame_append_summary(2)]
          views_cong(2) [OF frame_append_summary(2)])
  next
    case (Op_tstates n ts)
    then show ?thesis
      using ib by (simp add: index_of_cong(1) [OF frame_append_tstates(2)]
          views_cong(2) [OF frame_append_tstates(2)])
  next
    case (Op_bin_mapper sim)
    then show ?thesis
      using ib by (simp add: index_of_cong(1) [OF frame_append_bin_mapper(2)]
          views_cong(2) [OF frame_append_bin_mapper(2)])
  qed
  have ts': "\<forall>name\<in>dom (ts_groups_of ?g). \<exists>k<length (ts_index_of ?g). name = str_nat k"
  proof (cases op)
    case (Op_tstates n tstates)
    show ?thesis
      unfolding Op_tstates run_op.simps append_tstates_rows
      using ts append_tstates_names by (rule names_widen)
  next
    case (Op_summary n ni bs)
    then show ?thesis
      using ts by (simp add: index_of_cong(2) [OF frame_append_summary(3)]
          views_cong(3) [OF frame_append_summary(3)])
  next
    case (Op_ibstates n bs)
    then show ?thesis
      using ts by (simp add: index_of_cong(2) [OF frame_append_ibstates(2)]
          views_cong(3) [OF frame_append_ibstates(2)])
  next
    case (Op_bin_mapper sim)
    then show ?thesis
      using ts by (simp add: index_of_cong(2) [OF frame_append_bin_mapper(3)]
          views_cong(3) [OF frame_append_bin_mapper(3)])
  qed
  have wf': "bin_wf ?g"
  proof (cases op)
    case (Op_bin_mapper sim)
    then show ?thesis using append_bin_mapper_wf(2) [OF wf] by simp
  next
    case (Op_summary n ni bs)
    then show ?thesis using wf by (simp add: views_cong(5) [OF frame_append_summary(4)])
  next
    case (Op_ibstates n bs)
    then show ?thesis using wf by (simp add: views_cong(5) [OF frame_append_ibstates(3)])
  next
    case (Op_tstates n ts)
    then show ?thesis using wf by (simp add: views_cong(5) [OF frame_append_tstates(3)])
  qed
  show ?thesis
    unfolding refs_in_range_def
    using ib' ts' wf' it' bin_wf_len [OF wf'] by simp
qed

lemma run_ops_refs_in_range: "refs_in_range f \<Longrightarrow> refs_in_range (run_ops ops f)"
  by (induction ops arbitrary: f) (simp_all add: run_op_refs_in_range)

lemma append_iter_as_ops:
  fixes self :: WestpaH5File and sim :: SimMetadata and sims :: "SimMetadata list"
    and binned :: "SimMetadata list list" and basis :: BasisStates
    and targets :: "TargetState list" and fs :: filesystem
  defines "n \<equiv> iteration_id sim"
  defines "f0 \<equiv> h5_open_a fs (h5file self)"
  defines "R \<equiv> append_iter self (sim # sims) binned basis targets fs"
  defines "F \<equiv> h5_open_a (outcome R) (h5file self)"
  defines "ops \<equiv> append_ops n sim (sim # sims) binned basis targets"
  shows "(\<exists>k. F = run_ops (take k ops) f0) \<or>
     (raised (append_summary n (sim # sims) binned f0) = None \<and>
      F = outcome (require_iter_group (config self) n (run_ops ops f0)))"
proof -
  define w1 where "w1 = append_summary n (sim # sims) binned"
  define w2 where "w2 = (\<lambda>f. if n \<noteq> 0 then append_ibstates n basis f else Inr f)"
  define w3 where "w3 = (\<lambda>f. if n \<noteq> 0 then append_tstates n targets f else Inr f)"
  define w4 where "w4 = (\<lambda>f. if n \<noteq> 0 then append_bin_mapper sim f else Inr f)"
  define w5 where "w5 = require_iter_group (config self) n"
  define f1 where "f1 = outcome (w1 f0)"
  define f2 where "f2 = outcome (w2 f1)"
  define f3 where "f3 = outcome (w3 f2)"
  define f4 where "f4 = outcome (w4 f3)"
  have R: "R = with_file_a (h5file self)
      (\<lambda>f. and_then (w1 f) (\<lambda>f. and_then (w2 f) (\<lambda>f. and_then (w3 f)
        (\<lambda>f. and_then (w4 f) (\<lambda>f. w5 f))))) fs"
    unfolding R_def append_iter_def w1_def w2_def w3_def w4_def w5_def n_def
    by (simp add: Let_def)
  have F: "F = (if raised (w1 f0) = None then
      if raised (w2 f1) = None then
        if raised (w3 f2) = None then
          if raised (w4 f3) = None then outcome (w5 f4) else f4
        else f3
      else f2
    else f1)"
    unfolding F_def R outcome_with_file_a h5_open_a_upd chain5_outcome
    by (simp add: f1_def f2_def f3_def f4_def f0_def)
  have k0: "run_ops (take 0 ops) f0 = f0" by simp
  have k1: "run_ops (take 1 ops) f0 = f1"
    by (simp add: ops_def append_ops_def f1_def w1_def)
  have all: "run_ops ops f0 = f4"
    by (simp add: ops_def append_ops_def f1_def f2_def f3_def f4_def w1_def w2_def w3_def w4_def)
  have k2: "run_ops (take 2 ops) f0 = f2"
    by (simp add: ops_def append_ops_def f1_def f2_def w1_def w2_def)
  have k3: "run_ops (take 3 ops) f0 = f3"
    by (simp add: ops_def append_ops_def f1_def f2_def f3_def w1_def w2_def w3_def)
  consider (e1) "raised (w1 f0) \<noteq> None"
    | (e2) "raised (w1 f0) = None" "raised (w2 f1) \<noteq> None"
    | (e3) "raised (w1 f0) = None" "raised (w2 f1) = None" "raised (w3 f2) \<noteq> None"
    | (e4) "raised (w1 f0) = None" "raised (w2 f1) = None" "raised (w3 f2) = None"
        "raised (w4 f3) \<noteq> None"
    | (ok) "raised (w1 f0) = None" "raised (w2 f1) = None" "raised (w3 f2) = None"
        "raised (w4 f3) = None"
    by blast
  then show ?thesis
  proof cases
    case e1
    then have "F = f1" by (simp add: F del: not_None_eq)
    then have "F = run_ops (take 1 ops) f0" by (simp only: k1)
    then show ?thesis by blast
  next
    case e2
    then have "F = f2" by (simp add: F del: not_None_eq)
    then have "F = run_ops (take 2 ops) f0" by (simp only: k2)
    then show ?thesis by blast
  next
    case e3
    then have "F = f3" by (simp add: F del: not_None_eq)
    then have "F = run_ops (take 3 ops) f0" by (simp only: k3)
    then show ?thesis by blast
  next
    case e4
    then have "F = f4" by (simp add: F del: not_None_eq)
    then have "F = run_ops (take (length ops) ops) f0" by (simp only: all take_all order_refl)
    then show ?thesis by blast
  next
    case ok
    then have "F = outcome (w5 f4)" by (simp add: F)
    then have "F = outcome (w5 (run_ops ops f0))" by (simp only: all)
    with ok(1) show ?thesis by (simp add: w1_def w5_def)
  qed
qed

lemma require_iter_group_tables: "tables_le f (outcome (require_iter_group cfg n f))"
  by (simp add: tables_le_def
      views_cong(1) [OF summary_frame(4)]
      index_of_cong(1) [OF frame_require_iter_group(1)]
      index_of_cong(2) [OF frame_require_iter_group(2)]
      index_of_cong(3) [OF frame_require_iter_group(3)]
      views_cong(4) [OF frame_require_iter_group(3)])

lemma require_iter_group_ran:
  "ran (iterations_of (outcome (require_iter_group cfg n f))) \<subseteq>
     insert \<lparr>n_iter_attr = Some n\<rparr> (ran (iterations_of f))"
  by (auto simp add: require_iter_group_def Let_def iterations_of_def ran_def
      split: option.splits if_splits)

lemma require_iter_group_refs:
  assumes "refs_in_range f" and "n \<le> summary_len f"
  shows "refs_in_range (outcome (require_iter_group cfg n f))"
proof -
  let ?g = "outcome (require_iter_group cfg n f)"
  have len: "summary_len ?g = summary_len f"
    by (rule views_cong(1)) (rule summary_frame(4))
  have it: "\<forall>g\<in>ran (iterations_of ?g). \<forall>m. n_iter_attr g = Some m \<longrightarrow> m \<le> summary_len ?g"
  proof (intro ballI allI impI)
    fix g m assume g: "g \<in> ran (iterations_of ?g)" and m: "n_iter_attr g = Some m"
    from g require_iter_group_ran [of cfg n f]
    have "g = \<lparr>n_iter_attr = Some n\<rparr> \<or> g \<in> ran (iterations_of f)" by auto
    then show "m \<le> summary_len ?g"
    proof
      assume "g = \<lparr>n_iter_attr = Some n\<rparr>"
      with m have "m = n" by simp
      with assms(2) show ?thesis by (simp only: len)
    next
      assume "g \<in> ran (iterations_of f)"
      with m assms(1) have "m \<le> summary_len f" by (simp add: refs_in_range_def)
      then show ?thesis by (simp only: len)
    qed
  qed
  show ?thesis
    using assms(1) it
    unfolding refs_in_range_def
    by (simp add: index_of_cong(1) [OF frame_require_iter_group(1)]
        index_of_cong(2) [OF frame_require_iter_group(2)]
        index_of_cong(3) [OF frame_require_iter_group(3)]
        views_cong(2) [OF frame_require_iter_group(1)]
        views_cong(3) [OF frame_require_iter_group(2)]
        views_cong(4) [OF frame_require_iter_group(3)]
        views_cong(5) [OF frame_require_iter_group(3)])
qed

lemma append_iter_tables:
  "tables_le (h5_open_a fs (h5file self))
     (h5_open_a (outcome (append_iter self next_iteration binned basis targets fs)) (h5file self))"
  "refs_in_range (h5_open_a fs (h5file self)) \<Longrightarrow>
   refs_in_range
     (h5_open_a (outcome (append_iter self next_iteration binned basis targets fs)) (h5file self))"
proof -
  let ?f0 = "h5_open_a fs (h5file self)"
  let ?F = "h5_open_a (outcome (append_iter self next_iteration binned basis targets fs))
    (h5file self)"
  have "tables_le ?f0 ?F \<and> (refs_in_range ?f0 \<longrightarrow> refs_in_range ?F)"
  proof (cases next_iteration)
    case Nil
    then show ?thesis by (simp add: append_iter_def tables_le_refl)
  next
    case (Cons sim sims)
    let ?n = "iteration_id sim"
    let ?ops = "append_ops ?n sim (sim # sims) binned basis targets"
    have "(\<exists>k. ?F = run_ops (take k ?ops) ?f0) \<or>
        (raised (append_summary ?n (sim # sims) binned ?f0) = None \<and>
         ?F = outcome (require_iter_group (config self) ?n (run_ops ?ops ?f0)))"
      unfolding Cons
      by (rule append_iter_as_ops)
    then show ?thesis
    proof (elim disjE exE conjE)
      fix k assume "?F = run_ops (take k ?ops) ?f0"
      then show ?thesis
        by (simp add: run_ops_tables_le run_ops_refs_in_range)
    next
      assume finished: "raised (append_summary ?n (sim # sims) binned ?f0) = None"
        "?F = outcome (require_iter_group (config self) ?n (run_ops ?ops ?f0))"
      let ?g = "outcome (append_summary ?n (sim # sims) binned ?f0)"
      have ops: "run_ops ?ops ?f0 = run_ops (tl ?ops) ?g"
        by (simp add: append_ops_def)
      have "?n \<le> summary_len ?g"
        using finished(1) by (rule append_summary_reaches)
      moreover have "summary_len ?g \<le> summary_len (run_ops (tl ?ops) ?g)"
        using run_ops_tables_le [of ?g "tl ?ops"] by (simp add: tables_le_def)
      ultimately have reach: "?n \<le> summary_len (run_ops ?ops ?f0)"
        unfolding ops by simp
      have "tables_le ?f0 ?F"
        unfolding finished(2)
        using run_ops_tables_le require_iter_group_tables by (rule tables_le_trans)
      moreover have "refs_in_range ?F" if "refs_in_range ?f0"
        unfolding finished(2)
        using run_ops_refs_in_range [OF that] reach by (rule require_iter_group_refs)
      ultimately show ?thesis by simp
    qed
  qed
  then show "tables_le ?f0 ?F" and "refs_in_range ?f0 \<Longrightarrow> refs_in_range ?F"
    by simp_all
qed

lemma iterations_init_file: "iterations_of (init_file cfg) = Map.empty"
  by (simp add: iterations_of_def init_file_def set_attr_def empty_file_def Let_def)

lemma refs_in_range_init_file: "refs_in_range (init_file cfg)"
  unfolding refs_in_range_def
  by (simp add: bin_wf_init_file bin_wf_len ib_init_file iterations_init_file
      ts_groups_of_def groups_init_file)

subsection \<open>The summary row of an iteration\<close>



subsection \<open>An empty iteration\<close>

text \<open>
  Claim C2. When the list of replica records or the bin partition is empty, the call
  raises the empty-sequence error and the file is what it was before the call: the
  summary table, and everything else, is unchanged.
\<close>

theorem C2_empty_iteration:
  assumes "next_iteration = [] \<or> binned_sims = []"
  shows "raised (append_iter self next_iteration binned_sims basis_states target_states fs) =
           Some EmptyIteration \<and>
         h5_open_a (outcome (append_iter self next_iteration binned_sims basis_states target_states fs))
           (h5file self) = h5_open_a fs (h5file self) \<and>
         summary (h5_open_a
           (outcome (append_iter self next_iteration binned_sims basis_states target_states fs))
           (h5file self)) = summary (h5_open_a fs (h5file self))"
proof (cases next_iteration)
  case Nil
  then show ?thesis by (simp add: append_iter_def)
next
  case (Cons sim sims)
  with assms have empty: "binned_sims = []" by simp
  have "append_summary n (sim # sims) [] f = Inl (EmptyIteration, f)" for n f
    by (simp add: append_summary_def)
  then show ?thesis
    unfolding Cons empty
    by (simp add: append_iter_def Let_def with_file_a_def h5_open_a_def)
qed

theorem C2_empty_iteration_witness:
  "([sim_a] = [] \<or> ([] :: SimMetadata list list) = []) \<and>
   raised (append_iter store0 [sim_a] [] [] [] fs0) = Some EmptyIteration \<and>
   summary (h5_open_a (outcome (append_iter store0 [sim_a] [] [] [] fs0)) ''west.h5'') =
     Some [zero_summary_row]"
proof -
  have h: "[sim_a] = [] \<or> ([] :: SimMetadata list list) = []" by simp
  show ?thesis
    using C2_empty_iteration [OF h, of store0 "[]" "[]" fs0] fs0_store0
    by (simp add: store0_def h5_open_a_def summary_init_file)
qed

subsection \<open>Empty state lists\<close>




subsection \<open>Creating a store\<close>

text \<open>
  Claim C5, as stated, fails: the constructor opens the path with mode \<^verbatim>\<open>'w'\<close>
  and cannot raise. Created over the store that holds iteration 1, it leaves a
  different file at the path.
\<close>

theorem C5_counterexample:
  "fs1 ''west.h5'' \<noteq> None \<and>
   snd (WestpaH5File_init ''west.h5'' cfg0 fs1) ''west.h5'' \<noteq> fs1 ''west.h5''"
proof -
  obtain f1 where f1: "fs1 ''west.h5'' = Some f1" "summary f1 \<noteq> Some [zero_summary_row]"
    using summary_fs1 by blast
  have "snd (WestpaH5File_init ''west.h5'' cfg0 fs1) ''west.h5'' = Some (init_file cfg0)"
    by (simp add: WestpaH5File_init_def)
  moreover have "init_file cfg0 \<noteq> f1"
    using f1(2) summary_init_file [of cfg0] by auto
  ultimately show ?thesis using f1(1) by simp
qed

text \<open>
  Claim C5, amended. Creating a store never fails: whatever the path held, it holds
  afterwards the new store (the format attributes of the configuration, a summary table
  of one zero row, an empty group of iterations and nothing else), every other path is
  untouched, and the object returned remembers the configuration and the path.
\<close>

theorem C5_create_replaces:
  "\<exists>g. snd (WestpaH5File_init path cfg fs) path = Some g \<and>
     g = init_file cfg \<and>
     summary g = Some [zero_summary_row] \<and>
     iterations g = Some Map.empty \<and>
     ibstates g = None \<and> tstates g = None \<and> bin_topologies g = None \<and>
     file_attrs g ''west_file_format_version'' = Some (AInt (west_file_format_version cfg)) \<and>
     file_attrs g ''west_iter_prec'' = Some (AInt (int (west_iter_prec cfg))) \<and>
     file_attrs g ''west_version'' = Some (AStr (west_version cfg)) \<and>
     (snd (WestpaH5File_init path cfg fs))(path := None) = fs(path := None) \<and>
     fst (WestpaH5File_init path cfg fs) = \<lparr>config = cfg, h5file = path\<rparr>"
  by (simp add: WestpaH5File_init_def init_file_def set_attr_def Let_def empty_file_def wr_def)

subsection \<open>The bin-topology store\<close>



text \<open>
  Claim C7. On a well-formed bin-topology group, appending the same snapshot twice
  succeeds twice; each call adds exactly one row to the index and one to the payload
  table, so the snapshot is stored in two index rows and two payload rows (nothing is
  looked up by hash first).
\<close>

theorem C7_no_deduplication:
  assumes "bin_wf f"
  shows "raised (append_bin_mapper sim f) = None \<and>
     raised (append_bin_mapper sim (outcome (append_bin_mapper sim f))) = None \<and>
     length (bin_index_of (outcome (append_bin_mapper sim f))) = length (bin_index_of f) + 1 \<and>
     length (pickle_rows_of (outcome (append_bin_mapper sim f))) =
       length (pickle_rows_of f) + 1 \<and>
     length (bin_index_of (outcome (append_bin_mapper sim (outcome (append_bin_mapper sim f))))) =
       length (bin_index_of f) + 2 \<and>
     length (pickle_rows_of (outcome (append_bin_mapper sim (outcome (append_bin_mapper sim f))))) =
       length (pickle_rows_of f) + 2 \<and>
     bin_index_of (outcome (append_bin_mapper sim (outcome (append_bin_mapper sim f)))) =
       bin_index_of f @
         [\<lparr>hash = binner_hash sim, pickle_len = length (binner_pickle sim)\<rparr>,
          \<lparr>hash = binner_hash sim, pickle_len = length (binner_pickle sim)\<rparr>] \<and>
     take (length (binner_pickle sim))
       (pickle_rows_of (outcome (append_bin_mapper sim (outcome (append_bin_mapper sim f)))) !
          length (pickle_rows_of f)) = binner_pickle sim \<and>
     take (length (binner_pickle sim))
       (pickle_rows_of (outcome (append_bin_mapper sim (outcome (append_bin_mapper sim f)))) !
          (length (pickle_rows_of f) + 1)) = binner_pickle sim"
proof -
  let ?g = "outcome (append_bin_mapper sim f)"
  let ?h = "outcome (append_bin_mapper sim ?g)"
  let ?L = "length (binner_pickle sim)"
  note first = append_bin_mapper_wf [OF assms, of sim]
  note second = append_bin_mapper_wf [OF first(2), of sim]
  have rows_g: "length (pickle_rows_of ?g) = length (pickle_rows_of f) + 1"
    by (simp add: first(5))
  have w: "?L \<le> max (pickle_width_of ?g) ?L" by simp
  have row_n: "take ?L (pickle_rows_of ?h ! length (pickle_rows_of f)) = binner_pickle sim"
    by (simp add: second(5) first(5) nth_append take_resize)
  have row_n1: "take ?L (pickle_rows_of ?h ! (length (pickle_rows_of f) + 1)) = binner_pickle sim"
    by (simp add: second(5) nth_append rows_g)
  show ?thesis
    using first(1) second(1) row_n row_n1
    by (simp add: first(3) second(3) first(5) second(5))
qed

theorem C7_no_deduplication_witness:
  "bin_wf (init_file cfg0) \<and>
   raised (append_bin_mapper sim_a (init_file cfg0)) = None \<and>
   raised (append_bin_mapper sim_a (outcome (append_bin_mapper sim_a (init_file cfg0)))) = None \<and>
   length (bin_index_of
     (outcome (append_bin_mapper sim_a (outcome (append_bin_mapper sim_a (init_file cfg0)))))) =
     length (bin_index_of (init_file cfg0)) + 2 \<and>
   length (pickle_rows_of
     (outcome (append_bin_mapper sim_a (outcome (append_bin_mapper sim_a (init_file cfg0)))))) =
     length (pickle_rows_of (init_file cfg0)) + 2"
  using C7_no_deduplication [OF bin_wf_init_file, of sim_a cfg0] bin_wf_init_file [of cfg0]
  by blast

subsection \<open>Which writers an iteration runs\<close>



subsection \<open>The group of the iteration is written last\<close>

text \<open>
  Claim C8. In every call of \<^verbatim>\<open>append\<close> that returns, the entries that the
  call adds to the journal end with the creation of the group
  \<^verbatim>\<open>/iterations/iter_\<close>\<open>n\<close> (when the group was not there before) and the
  setting of its attribute \<^verbatim>\<open>n_iter\<close>; every entry before them, the summary
  row among them, is outside \<^verbatim>\<open>/iterations\<close>. The file written back holds
  the group with \<^verbatim>\<open>n_iter\<close> equal to the iteration number, under the name
  made of \<^verbatim>\<open>iter_\<close> and the number padded with zeros.
\<close>

theorem C8_namespace_last:
  fixes self :: WestpaH5File and sim :: SimMetadata and sims :: "SimMetadata list"
    and binned :: "SimMetadata list list" and basis :: BasisStates
    and targets :: "TargetState list" and fs :: filesystem
  defines "n \<equiv> iteration_id sim"
  defines "f0 \<equiv> h5_open_a fs (h5file self)"
  defines "R \<equiv> append_iter self (sim # sims) binned basis targets fs"
  defines "F \<equiv> h5_open_a (outcome R) (h5file self)"
  defines "name \<equiv> iter_name (config self) n"
  assumes ok: "raised R = None"
  shows "\<exists>before.
     new_writes f0 F =
       before @
       (if name \<in> dom (iterations_of f0) then [] else [CreateGroup [''iterations'', name]]) @
       [SetAttr [''iterations'', name] ''n_iter''] \<and>
     (\<forall>w\<in>set before. section_of w \<noteq> ''iterations'') \<and>
     SetItem [''summary''] \<in> set before \<and>
     journal F = journal f0 @ new_writes f0 F \<and>
     outcome R (h5file self) = Some F \<and>
     iterations_of F name \<noteq> None \<and>
     n_iter_attr (the (iterations_of F name)) = Some n \<and>
     name = ''iter_'' @
       replicate (west_iter_prec (config self) - length (str_nat n)) CHR ''0'' @ str_nat n"
proof -
  have "\<exists>t1 t2 t3 t4 t5.
     new_writes f0 F = t1 @ t2 @ t3 @ t4 @ t5 \<and>
     (\<forall>w\<in>set t1. section_of w = ''summary'') \<and>
     (\<forall>w\<in>set t2. section_of w = ''ibstates'') \<and>
     (\<forall>w\<in>set t3. section_of w = ''tstates'') \<and>
     (\<forall>w\<in>set t4. section_of w = ''bin_topologies'') \<and>
     (n = 0 \<longrightarrow> t2 = [] \<and> t3 = [] \<and> t4 = []) \<and>
     (raised R \<noteq> None \<longrightarrow> t5 = []) \<and>
     journal F = journal f0 @ new_writes f0 F \<and>
     (n = 0 \<longrightarrow> ibstates F = ibstates f0 \<and> tstates F = tstates f0 \<and>
        bin_topologies F = bin_topologies f0) \<and>
     (raised R = None \<longrightarrow>
        SetItem [''summary''] \<in> set t1 \<and>
        (n \<noteq> 0 \<longrightarrow> t2 \<noteq> [] \<and> t3 \<noteq> [] \<and> t4 \<noteq> []) \<and>
        t5 = (if iter_name (config self) n \<in> dom (iterations_of f0) then []
              else [CreateGroup [''iterations'', iter_name (config self) n]]) @
             [SetAttr [''iterations'', iter_name (config self) n] ''n_iter''] \<and>
        iterations_of F (iter_name (config self) n) \<noteq> None \<and>
        n_iter_attr (the (iterations_of F (iter_name (config self) n))) = Some n \<and>
        (n \<noteq> 0 \<longrightarrow>
           length (ib_index_of F) = length (ib_index_of f0) + 1 \<and>
           length (ts_index_of F) = length (ts_index_of f0) + 1 \<and>
           length (bin_index_of F) = length (bin_index_of f0) + 1))"
    unfolding n_def f0_def R_def F_def by (rule append_iter_trace)
  then obtain t1 t2 t3 t4 t5 where
    trace: "new_writes f0 F = t1 @ t2 @ t3 @ t4 @ t5"
    and s1: "\<forall>w\<in>set t1. section_of w = ''summary''"
    and s2: "\<forall>w\<in>set t2. section_of w = ''ibstates''"
    and s3: "\<forall>w\<in>set t3. section_of w = ''tstates''"
    and s4: "\<forall>w\<in>set t4. section_of w = ''bin_topologies''"
    and zero: "n = 0 \<longrightarrow> t2 = [] \<and> t3 = [] \<and> t4 = []"
    and failed: "raised R \<noteq> None \<longrightarrow> t5 = []"
    and prefix: "journal F = journal f0 @ new_writes f0 F"
    and untouched: "n = 0 \<longrightarrow> ibstates F = ibstates f0 \<and> tstates F = tstates f0 \<and>
        bin_topologies F = bin_topologies f0"
    and success: "raised R = None \<longrightarrow>
        SetItem [''summary''] \<in> set t1 \<and>
        (n \<noteq> 0 \<longrightarrow> t2 \<noteq> [] \<and> t3 \<noteq> [] \<and> t4 \<noteq> []) \<and>
        t5 = (if iter_name (config self) n \<in> dom (iterations_of f0) then []
              else [CreateGroup [''iterations'', iter_name (config self) n]]) @
             [SetAttr [''iterations'', iter_name (config self) n] ''n_iter''] \<and>
        iterations_of F (iter_name (config self) n) \<noteq> None \<and>
        n_iter_attr (the (iterations_of F (iter_name (config self) n))) = Some n \<and>
        (n \<noteq> 0 \<longrightarrow>
           length (ib_index_of F) = length (ib_index_of f0) + 1 \<and>
           length (ts_index_of F) = length (ts_index_of f0) + 1 \<and>
           length (bin_index_of F) = length (bin_index_of f0) + 1)"
    by (elim exE conjE) (rule that)
  have before: "\<forall>w\<in>set (t1 @ t2 @ t3 @ t4). section_of w \<noteq> ''iterations''"
    using s1 s2 s3 s4 by auto
  have written: "SetItem [''summary''] \<in> set (t1 @ t2 @ t3 @ t4)"
    using success ok by simp
  have last: "new_writes f0 F =
       (t1 @ t2 @ t3 @ t4) @
       (if name \<in> dom (iterations_of f0) then [] else [CreateGroup [''iterations'', name]]) @
       [SetAttr [''iterations'', name] ''n_iter'']"
    using success ok by (simp add: trace name_def)
  have stored: "outcome R (h5file self) = Some F"
    unfolding F_def R_def by (simp add: append_iter_def outcome_with_file_a Let_def)
  have group: "iterations_of F name \<noteq> None"
    "n_iter_attr (the (iterations_of F name)) = Some n"
    using success ok by (simp_all add: name_def)
  have padded: "name = ''iter_'' @
       replicate (west_iter_prec (config self) - length (str_nat n)) CHR ''0'' @ str_nat n"
    by (simp add: name_def iter_name_def format_0d_def)
  show ?thesis
    using last before written prefix stored group padded by blast
qed


theorem C8_namespace_last_witness:
  "raised (append_iter store0 [sim_a, sim_b] [[sim_a, sim_b]] [] [] fs0) = None \<and>
   (\<exists>before.
      new_writes (h5_open_a fs0 (h5file store0))
        (h5_open_a (outcome (append_iter store0 [sim_a, sim_b] [[sim_a, sim_b]] [] [] fs0))
          (h5file store0)) =
        before @ [CreateGroup [''iterations'', ''iter_00000001''],
                  SetAttr [''iterations'', ''iter_00000001''] ''n_iter''] \<and>
      (\<forall>w\<in>set before. section_of w \<noteq> ''iterations'') \<and>
      SetItem [''summary''] \<in> set before)"
proof -
  have name: "iter_name (config store0) (iteration_id sim_a) = ''iter_00000001''"
    by (simp add: iter_name_def format_0d_def store0_def cfg0_def sim_a_def str_nat.simps
        eval_nat_numeral)
  have fresh: "iterations_of (h5_open_a fs0 (h5file store0)) = Map.empty"
    using fs0_store0
    by (simp add: h5_open_a_def iterations_of_def init_file_def set_attr_def empty_file_def Let_def)
  show ?thesis
    using C8_namespace_last [where self = store0 and sim = sim_a and sims = "[sim_b]"
        and binned = "[[sim_a, sim_b]]" and basis = "[]" and targets = "[]" and fs = fs0,
        OF example_append_ok]
      example_append_ok
    unfolding name fresh
    by auto
qed

subsection \<open>Tables only grow\<close>

text \<open>
  Claim C9. Whatever sequence of calls of \<^verbatim>\<open>append_summary\<close>,
  \<^verbatim>\<open>append_ibstates\<close>, \<^verbatim>\<open>append_tstates\<close> and
  \<^verbatim>\<open>append_bin_mapper\<close> is run on a file, returning or raising, no table
  (the summary table, the two state indexes, the bin index, the payload table) is
  shorter afterwards, and if every reference was inside its table before, it is so
  afterwards; once \<^verbatim>\<open>append_summary\<close> has written iteration \<open>n\<close>, the
  summary table keeps at least \<open>n\<close> rows. The same holds for a whole call of
  \<^verbatim>\<open>append\<close>.
\<close>

theorem C9_tables_never_shrink:
  "tables_le f (run_ops ops f) \<and>
   (refs_in_range f \<longrightarrow> refs_in_range (run_ops ops f)) \<and>
   (raised (append_summary n next_iteration binned_sims f) = None \<longrightarrow>
      n \<le> summary_len (run_ops ops (outcome (append_summary n next_iteration binned_sims f)))) \<and>
   tables_le (h5_open_a fs (h5file self))
     (h5_open_a (outcome (append_iter self next_iteration binned_sims basis_states
        target_states fs)) (h5file self)) \<and>
   (refs_in_range (h5_open_a fs (h5file self)) \<longrightarrow>
    refs_in_range
     (h5_open_a (outcome (append_iter self next_iteration binned_sims basis_states
        target_states fs)) (h5file self)))"
proof (intro conjI impI)
  show "tables_le f (run_ops ops f)" by (rule run_ops_tables_le)
  show "refs_in_range (run_ops ops f)" if "refs_in_range f"
    using that by (rule run_ops_refs_in_range)
  show "n \<le> summary_len (run_ops ops (outcome (append_summary n next_iteration binned_sims f)))"
    if "raised (append_summary n next_iteration binned_sims f) = None"
  proof -
    let ?g = "outcome (append_summary n next_iteration binned_sims f)"
    have "n \<le> summary_len ?g" using that by (rule append_summary_reaches)
    moreover have "summary_len ?g \<le> summary_len (run_ops ops ?g)"
      using run_ops_tables_le [of ?g ops] by (simp add: tables_le_def)
    ultimately show ?thesis by simp
  qed
  show "tables_le (h5_open_a fs (h5file self))
     (h5_open_a (outcome (append_iter self next_iteration binned_sims basis_states
        target_states fs)) (h5file self))"
    by (rule append_iter_tables(1))
  show "refs_in_range
     (h5_open_a (outcome (append_iter self next_iteration binned_sims basis_states
        target_states fs)) (h5file self))"
    if "refs_in_range (h5_open_a fs (h5file self))"
    using that by (rule append_iter_tables(2))
qed

theorem C9_tables_never_shrink_witness:
  "refs_in_range (init_file cfg0) \<and>
   raised (append_summary 1 [sim_a, sim_b] [[sim_a, sim_b]] (init_file cfg0)) = None \<and>
   refs_in_range (h5_open_a fs0 (h5file store0)) \<and>
   tables_le (init_file cfg0)
     (run_ops [Op_ibstates 1 [], Op_bin_mapper sim_a, Op_tstates 1 []] (init_file cfg0)) \<and>
   refs_in_range
     (run_ops [Op_ibstates 1 [], Op_bin_mapper sim_a, Op_tstates 1 []] (init_file cfg0)) \<and>
   1 \<le> summary_len
     (run_ops [Op_ibstates 1 [], Op_bin_mapper sim_a, Op_tstates 1 []]
       (outcome (append_summary 1 [sim_a, sim_b] [[sim_a, sim_b]] (init_file cfg0)))) \<and>
   refs_in_range
     (h5_open_a (outcome (append_iter store0 [sim_a, sim_b] [[sim_a, sim_b]] [] [] fs0))
        (h5file store0))"
proof -
  have h1: "refs_in_range (init_file cfg0)" by (rule refs_in_range_init_file)
  have h2: "raised (append_summary 1 [sim_a, sim_b] [[sim_a, sim_b]] (init_file cfg0)) = None"
    by (simp add: append_summary_pos [OF _ _ summary_init_file])
  have h3: "refs_in_range (h5_open_a fs0 (h5file store0))"
    using fs0_store0 h1 by (simp add: h5_open_a_def)
  show ?thesis
    using C9_tables_never_shrink [where f = "init_file cfg0"
        and ops = "[Op_ibstates 1 [], Op_bin_mapper sim_a, Op_tstates 1 []]"
        and n = 1 and next_iteration = "[sim_a, sim_b]" and binned_sims = "[[sim_a, sim_b]]"
        and fs = fs0 and self = store0 and basis_states = "[]" and target_states = "[]"]
      h1 h2 h3
    by blast
qed

subsection \<open>Where the iteration number comes from\<close>

text \<open>
  Claim C10. The iteration number is read from the first replica record only: two calls
  with the same first record, whose other records and whose binned records differ at
  most in their iteration numbers, return the same result (the same file, journal
  included, and the same error if any).
\<close>

theorem C10_iteration_from_first:
  assumes "map (\<lambda>x. x\<lparr>iteration_id := 0\<rparr>) xs = map (\<lambda>x. x\<lparr>iteration_id := 0\<rparr>) ys"
    and "map (map (\<lambda>x. x\<lparr>iteration_id := 0\<rparr>)) bs =
         map (map (\<lambda>x. x\<lparr>iteration_id := 0\<rparr>)) bs'"
  shows "append_iter self (sim # xs) bs basis_states target_states fs =
         append_iter self (sim # ys) bs' basis_states target_states fs"
proof -
  have "map weight zs = map weight (map (\<lambda>x. x\<lparr>iteration_id := 0\<rparr>) zs)"
    for zs :: "SimMetadata list"
    by simp
  then have segs: "map weight xs = map weight ys"
    using assms(1) by metis
  have "map (map weight) zs = map (map weight) (map (map (\<lambda>x. x\<lparr>iteration_id := 0\<rparr>)) zs)"
    for zs :: "SimMetadata list list"
    by simp
  then have bins: "map (map weight) bs = map (map weight) bs'"
    using assms(2) by metis
  show ?thesis
    by (simp add: append_iter_def append_summary_cong [OF segs bins])
qed

theorem C10_iteration_from_first_witness:
  "map (\<lambda>x. x\<lparr>iteration_id := 0\<rparr>) [sim_b] =
     map (\<lambda>x. x\<lparr>iteration_id := 0\<rparr>) [sim_b\<lparr>iteration_id := 7\<rparr>] \<and>
   map (map (\<lambda>x. x\<lparr>iteration_id := 0\<rparr>)) [[sim_a, sim_b]] =
     map (map (\<lambda>x. x\<lparr>iteration_id := 0\<rparr>))
       [[sim_a\<lparr>iteration_id := 5\<rparr>, sim_b\<lparr>iteration_id := 9\<rparr>]] \<and>
   append_iter store0 [sim_a, sim_b] [[sim_a, sim_b]] [] [] fs0 =
     append_iter store0 [sim_a, sim_b\<lparr>iteration_id := 7\<rparr>]
       [[sim_a\<lparr>iteration_id := 5\<rparr>, sim_b\<lparr>iteration_id := 9\<rparr>]] [] [] fs0"
proof -
  have h1: "map (\<lambda>x. x\<lparr>iteration_id := 0\<rparr>) [sim_b] =
     map (\<lambda>x. x\<lparr>iteration_id := 0\<rparr>) [sim_b\<lparr>iteration_id := 7\<rparr>]"
    by simp
  have h2: "map (map (\<lambda>x. x\<lparr>iteration_id := 0\<rparr>)) [[sim_a, sim_b]] =
     map (map (\<lambda>x. x\<lparr>iteration_id := 0\<rparr>))
       [[sim_a\<lparr>iteration_id := 5\<rparr>, sim_b\<lparr>iteration_id := 9\<rparr>]]"
    by simp
  show ?thesis
    using C10_iteration_from_first [OF h1 h2, of store0 sim_a "[]" "[]" fs0] h1 h2
    by blast
qed


end
